theory Spec2Isabelle
  imports Main "HOL-Library.Sublist"
begin

section \<open>Missed native deposits: the worker of confirmed-native-extra.ts\<close>

text \<open>
  The source file holds two versions of \<open>runConfirmedNativeTokenExtraWorker\<close>: the
  original one and, after the document separator, a refactored one. Definitions taken from
  the original keep the source's names; the refactored ones carry the suffix \<open>_v2\<close>.
\<close>

subsection \<open>Decimal strings\<close>

text \<open>
  Amounts travel as decimal strings: \<open>tx.value.toString()\<close> of an ethers BigNumber, the
  argument of \<open>ethers.BigNumber.from\<close>, the arguments and results of \<open>ns\<close>.
\<close>

definition digit_table :: "(char \<times> nat) list" where
  "digit_table =
     [(CHR ''0'', 0), (CHR ''1'', 1), (CHR ''2'', 2), (CHR ''3'', 3), (CHR ''4'', 4),
      (CHR ''5'', 5), (CHR ''6'', 6), (CHR ''7'', 7), (CHR ''8'', 8), (CHR ''9'', 9)]"

definition digit_val :: "char \<Rightarrow> nat option" where
  "digit_val c = map_of digit_table c"

definition is_digit :: "char \<Rightarrow> bool" where
  "is_digit c = (digit_val c \<noteq> None)"

definition digit_char :: "nat \<Rightarrow> char" where
  "digit_char d = ''0123456789'' ! (d mod 10)"

text \<open>\<open>BigNumber.toString()\<close> of a non-negative value: decimal digits, no leading zero.\<close>

function decimal_of_nat :: "nat \<Rightarrow> string" where
  "decimal_of_nat n =
     (if n < 10 then [digit_char n]
      else decimal_of_nat (n div 10) @ [digit_char (n mod 10)])"
  by pat_completeness auto
termination
  by (relation "measure (\<lambda>n. n)") auto

declare decimal_of_nat.simps [simp del]

definition decimal_of_int :: "int \<Rightarrow> string" where
  "decimal_of_int i =
     (if i < 0 then CHR ''-'' # decimal_of_nat (nat (- i)) else decimal_of_nat (nat i))"

definition the_default :: "'a \<Rightarrow> 'a option \<Rightarrow> 'a" where
  "the_default d x = (case x of None \<Rightarrow> d | Some y \<Rightarrow> y)"

text \<open>The number a string of decimal digits denotes, most significant digit first.\<close>

fun digits_val :: "nat \<Rightarrow> string \<Rightarrow> nat" where
  "digits_val acc [] = acc"
| "digits_val acc (c # cs) = digits_val (10 * acc + the_default 0 (digit_val c)) cs"

definition is_decimal :: "string \<Rightarrow> bool" where
  "is_decimal s = (s \<noteq> [] \<and> list_all is_digit s)"

definition nat_of_decimal :: "string \<Rightarrow> nat option" where
  "nat_of_decimal s = (if is_decimal s then Some (digits_val 0 s) else None)"

subsection \<open>Errors\<close>

datatype error =
    AssertionError string
  | TypeError string
  | Error string
  | InvalidAmount string
  | InvalidBigNumber string
  | ExternalFailure string

subsection \<open>The \<open>ns\<close> wrapper\<close>

text \<open>
  Modelled from the spec: \<open>ns.sum\<close> and \<open>ns.times\<close> of \<open>@sideshift/shared\<close> are not in the
  source file. The spec (AmountReconciler) gives them: on non-negative decimal strings in
  the smallest unit they add and multiply exactly and give the result as a fixed-point
  decimal string; malformed numeric input fails with \<open>InvalidAmount\<close>.
\<close>

definition ns_sum :: "string \<Rightarrow> string \<Rightarrow> error + string" where
  "ns_sum a b =
     (case nat_of_decimal a of
        None \<Rightarrow> Inl (InvalidAmount a)
      | Some x \<Rightarrow>
          (case nat_of_decimal b of
             None \<Rightarrow> Inl (InvalidAmount b)
           | Some y \<Rightarrow> Inr (decimal_of_nat (x + y))))"

definition ns_times :: "string \<Rightarrow> string \<Rightarrow> error + string" where
  "ns_times a b =
     (case nat_of_decimal a of
        None \<Rightarrow> Inl (InvalidAmount a)
      | Some x \<Rightarrow>
          (case nat_of_decimal b of
             None \<Rightarrow> Inl (InvalidAmount b)
           | Some y \<Rightarrow> Inr (decimal_of_nat (x * y))))"

text \<open>
  \<open>const total = ns.sum(value, ns.times(gasLimit, gasPrice))\<close> of \<open>scanTxid\<close>, on the three
  strings; the inner call is evaluated first.
\<close>

definition total_of :: "string \<Rightarrow> string \<Rightarrow> string \<Rightarrow> error + string" where
  "total_of v gasLimit gasPrice =
     (case ns_times gasLimit gasPrice of
        Inl e \<Rightarrow> Inl e
      | Inr fee \<Rightarrow> ns_sum v fee)"

subsection \<open>Reading amounts: \<open>ethers.BigNumber.from\<close> and \<open>ethers.utils.formatEther\<close>\<close>

text \<open>
  Both come from the ethers library (version 5), which the source imports.
  \<open>BigNumber.from\<close> on a string accepts an optional minus sign followed either by \<open>0x\<close> and
  hexadecimal digits (of either case) or by decimal digits, and throws on every other
  string. The prefix must be the lower-case \<open>0x\<close>: with an upper-case \<open>0X\<close> the value can be
  neither compared nor printed (\<open>gt\<close>, \<open>lt\<close> and \<open>formatEther\<close> throw on it), and both uses
  in the worker compare or print at once, so reading such a string is an error here.
\<close>

definition hex_table :: "(char \<times> nat) list" where
  "hex_table = digit_table @
     [(CHR ''a'', 10), (CHR ''b'', 11), (CHR ''c'', 12), (CHR ''d'', 13), (CHR ''e'', 14),
      (CHR ''f'', 15), (CHR ''A'', 10), (CHR ''B'', 11), (CHR ''C'', 12), (CHR ''D'', 13),
      (CHR ''E'', 14), (CHR ''F'', 15)]"

definition hex_val :: "char \<Rightarrow> nat option" where
  "hex_val c = map_of hex_table c"

definition is_hex_digit :: "char \<Rightarrow> bool" where
  "is_hex_digit c = (hex_val c \<noteq> None)"

fun hex_digits_val :: "nat \<Rightarrow> string \<Rightarrow> nat" where
  "hex_digits_val acc [] = acc"
| "hex_digits_val acc (c # cs) = hex_digits_val (16 * acc + the_default 0 (hex_val c)) cs"

definition nat_of_hex :: "string \<Rightarrow> nat option" where
  "nat_of_hex s =
     (if s \<noteq> [] \<and> list_all is_hex_digit s then Some (hex_digits_val 0 s) else None)"

definition magnitude_of :: "string \<Rightarrow> nat option" where
  "magnitude_of s =
     (case s of
        c1 # c2 # rest \<Rightarrow>
          if c1 = CHR ''0'' \<and> c2 = CHR ''x'' then nat_of_hex rest
          else nat_of_decimal s
      | _ \<Rightarrow> nat_of_decimal s)"

definition BigNumber_from :: "string \<Rightarrow> error + int" where
  "BigNumber_from s =
     (case s of
        [] \<Rightarrow> Inl (InvalidBigNumber s)
      | c # r \<Rightarrow>
          if c = CHR ''-'' then
            (case magnitude_of r of
               None \<Rightarrow> Inl (InvalidBigNumber s)
             | Some m \<Rightarrow> Inr (- int m))
          else
            (case magnitude_of s of
               None \<Rightarrow> Inl (InvalidBigNumber s)
             | Some m \<Rightarrow> Inr (int m)))"

text \<open>
  \<open>formatEther\<close> prints wei with 18 decimals: the whole part, a dot, and the fraction padded
  to 18 digits with its trailing zeros removed, one digit at least.
\<close>

definition strip_trailing_zeros :: "string \<Rightarrow> string" where
  "strip_trailing_zeros s =
     (let r = rev (dropWhile (\<lambda>c. c = CHR ''0'') (rev s)) in if r = [] then ''0'' else r)"

definition pad18 :: "string \<Rightarrow> string" where
  "pad18 s = replicate (18 - length s) (CHR ''0'') @ s"

definition formatEther :: "int \<Rightarrow> string" where
  "formatEther v =
     (let a = nat \<bar>v\<bar>;
          fraction = strip_trailing_zeros (pad18 (decimal_of_nat (a mod 1000000000000000000)));
          whole = decimal_of_nat (a div 1000000000000000000)
      in (if v < 0 then ''-'' else []) @ whole @ ''.'' @ fraction)"

text \<open>\<open>formatEther\<close> on a string argument converts it with \<open>BigNumber.from\<close> first.\<close>

definition formatEther_string :: "string \<Rightarrow> error + string" where
  "formatEther_string s =
     (case BigNumber_from s of Inl e \<Rightarrow> Inl e | Inr v \<Rightarrow> Inr (formatEther v))"

subsection \<open>JavaScript values\<close>

text \<open>
  The worker checks some values at run time (\<open>typeof\<close>, truthiness), so those are modelled
  as untyped JavaScript values; the other fields have the types of their TypeScript
  declarations.
\<close>

datatype jsval = JUndefined | JNull | JString string | JNumber int | JBoolean bool

definition typeof :: "jsval \<Rightarrow> string" where
  "typeof v =
     (case v of
        JUndefined \<Rightarrow> ''undefined''
      | JNull \<Rightarrow> ''object''
      | JString _ \<Rightarrow> ''string''
      | JNumber _ \<Rightarrow> ''number''
      | JBoolean _ \<Rightarrow> ''boolean'')"

definition truthy :: "jsval \<Rightarrow> bool" where
  "truthy v =
     (case v of
        JUndefined \<Rightarrow> False
      | JNull \<Rightarrow> False
      | JString s \<Rightarrow> s \<noteq> []
      | JNumber n \<Rightarrow> n \<noteq> 0
      | JBoolean b \<Rightarrow> b)"

text \<open>
  The string a value becomes inside a template literal (numbers: integers, which print in
  plain decimal below \<open>10^21\<close>).
\<close>

definition to_string :: "jsval \<Rightarrow> string" where
  "to_string v =
     (case v of
        JUndefined \<Rightarrow> ''undefined''
      | JNull \<Rightarrow> ''null''
      | JString s \<Rightarrow> s
      | JNumber n \<Rightarrow> decimal_of_int n
      | JBoolean b \<Rightarrow> (if b then ''true'' else ''false''))"

text \<open>\<open>String.prototype.toLowerCase\<close>, on the ASCII letters an address is written with.\<close>

definition lower_table :: "(char \<times> char) list" where
  "lower_table = zip ''ABCDEFGHIJKLMNOPQRSTUVWXYZ'' ''abcdefghijklmnopqrstuvwxyz''"

definition toLowerCase :: "string \<Rightarrow> string" where
  "toLowerCase s = map (\<lambda>c. the_default c (map_of lower_table c)) s"

subsection \<open>Data model\<close>

text \<open>
  The fields of an ethers transaction that \<open>scanTxid\<close> reads. The guard tests \<open>hash\<close>,
  \<open>blockHash\<close> and \<open>from\<close> at run time, so they are untyped values; \<open>to\<close> and \<open>gasPrice\<close>
  are optional in the TypeScript declaration (none when absent); \<open>value\<close> and \<open>gasLimit\<close>
  are BigNumbers that are not negative.
\<close>

record transaction =
  tx_hash :: jsval
  tx_blockHash :: jsval
  tx_from :: jsval
  tx_to :: "string option"
  tx_value :: nat
  tx_gasLimit :: nat
  tx_gasPrice :: "nat option"

text \<open>
  What \<open>nodeProvider.getTransaction\<close> hands over and \<open>scanTxid\<close> receives: a transaction
  object, or a value that is none (\<open>null\<close> for a hash the node does not know).
\<close>

datatype tx_input = Prim jsval | Obj transaction

definition typeof_tx :: "tx_input \<Rightarrow> string" where
  "typeof_tx t = (case t of Prim v \<Rightarrow> typeof v | Obj _ \<Rightarrow> ''object'')"

definition truthy_tx :: "tx_input \<Rightarrow> bool" where
  "truthy_tx t = (case t of Prim v \<Rightarrow> truthy v | Obj _ \<Rightarrow> True)"

text \<open>A row of \<open>accountTxListResultSchema\<close>: four strings.\<close>

record candidate =
  c_hash :: string
  c_from :: string
  c_to :: string
  c_value :: string

text \<open>
  The \<open>Order\<close> entity, as far as the worker reads it: \<open>id\<close>, \<open>depositAddress\<close> (none when
  unassigned, else the object's \<open>address\<close>) and \<open>createdAt.getTime()\<close>.
\<close>

record Order =
  order_id :: string
  depositAddress :: "string option"
  createdAt :: int

record nativeMethod =
  asset :: string
  method_id :: string

text \<open>What the worker takes from \<open>contextLazy\<close>.\<close>

record app_context =
  nativeMethod :: nativeMethod
  network :: string
  etherscanApiKey :: jsval
  evmAccount :: string

text \<open>The argument of \<open>graphQLClient.maybeInternalCreateDeposit\<close>.\<close>

record credit_args =
  orderId :: string
  txid :: jsval
  amount :: string
  uniqueId :: string

text \<open>What \<open>axios.get\<close> resolves to: its \<open>result\<close> property and what the schema parses it to.\<close>

record response =
  result :: jsval
  accountTxListResultSchema_parse :: "error + candidate list"

subsection \<open>Effects: external calls, log lines, the ledger's state\<close>

datatype event =
    EvmNativeConfirm string bool
  | LogInfo string "jsval list"
  | LogError "error option" string "jsval list"
  | FindOneBy string
  | GetOne string jsval
  | AxiosGet string
  | GetTransaction string
  | MaybeInternalCreateDeposit credit_args

text \<open>
  A computation starts in a state of the credit ledger and gives a result or the error it
  threw, the events it caused in order, and the ledger's new state.
\<close>

type_synonym ('l, 'a) prog = "'l \<Rightarrow> (error + 'a) \<times> event list \<times> 'l"

definition ret :: "'a \<Rightarrow> ('l, 'a) prog" where
  "ret a l = (Inr a, [], l)"

definition throw :: "error \<Rightarrow> ('l, 'a) prog" where
  "throw e l = (Inl e, [], l)"

definition lift :: "error + 'a \<Rightarrow> ('l, 'a) prog" where
  "lift r l = (r, [], l)"

definition emit :: "event \<Rightarrow> ('l, unit) prog" where
  "emit ev l = (Inr (), [ev], l)"

definition call :: "event \<Rightarrow> error + 'a \<Rightarrow> ('l, 'a) prog" where
  "call ev r l = (r, [ev], l)"

definition call_ledger :: "event \<Rightarrow> ('l \<Rightarrow> (error + 'a) \<times> 'l) \<Rightarrow> ('l, 'a) prog" where
  "call_ledger ev f l = (case f l of (r, l') \<Rightarrow> (r, [ev], l'))"

definition and_then :: "('l, 'a) prog \<Rightarrow> ('a \<Rightarrow> ('l, 'b) prog) \<Rightarrow> ('l, 'b) prog" where
  "and_then m k l =
     (case m l of
        (Inl e, t, l') \<Rightarrow> (Inl e, t, l')
      | (Inr a, t, l') \<Rightarrow> (case k a l' of (r, t', l'') \<Rightarrow> (r, t @ t', l'')))"

text \<open>\<open>try { a = await m } catch (e) { h }\<close> followed by \<open>k a\<close>; \<open>k\<close> is outside the \<open>try\<close>.\<close>

definition try_catch ::
  "('l, 'a) prog \<Rightarrow> (error \<Rightarrow> ('l, 'b) prog) \<Rightarrow> ('a \<Rightarrow> ('l, 'b) prog) \<Rightarrow> ('l, 'b) prog" where
  "try_catch m h k l =
     (case m l of
        (Inl e, t, l') \<Rightarrow> (case h e l' of (r, t', l'') \<Rightarrow> (r, t @ t', l''))
      | (Inr a, t, l') \<Rightarrow> (case k a l' of (r, t', l'') \<Rightarrow> (r, t @ t', l'')))"

definition message :: "error \<Rightarrow> string" where
  "message e =
     (case e of
        AssertionError m \<Rightarrow> m
      | TypeError m \<Rightarrow> m
      | Error m \<Rightarrow> m
      | InvalidAmount m \<Rightarrow> m
      | InvalidBigNumber m \<Rightarrow> m
      | ExternalFailure m \<Rightarrow> m)"

text \<open>
  The collaborators. The order store, the explorer and the node are read only: each
  answers a call, from its arguments, with a value or a failure, and the trace records the
  call. The ledger also changes its state. \<open>getEthereumNativeDepositUniqueId\<close> (of
  \<open>./shared\<close>) and \<open>pMap\<close> (of the p-map library) are not in the source file and are
  parameters here. So is the task queue: \<open>evmNativeConfirm\<close> gives the queue's \<open>run\<close>,
  which takes the handler of one order id; the spec gives the handler the type
  \<open>(id) -> void\<close>, so \<open>run\<close> does not see what the handler returns.
\<close>

record 'l deps =
  findOneBy :: "string \<Rightarrow> error + Order option"
  getOne :: "string \<Rightarrow> jsval \<Rightarrow> error + Order option"
  axios_get :: "string \<Rightarrow> error + response"
  getTransaction :: "string \<Rightarrow> error + tx_input"
  maybeInternalCreateDeposit :: "credit_args \<Rightarrow> 'l \<Rightarrow> (error + bool) \<times> 'l"
  getEthereumNativeDepositUniqueId :: "nativeMethod \<Rightarrow> jsval \<Rightarrow> string"
  pMap :: "(candidate \<Rightarrow> ('l, unit) prog) \<Rightarrow> candidate list \<Rightarrow> ('l, unit) prog"
  evmNativeConfirm ::
    "string \<Rightarrow> bool \<Rightarrow> error + ((string \<Rightarrow> ('l, unit) prog) \<Rightarrow> ('l, unit) prog)"

subsection \<open>The original worker\<close>

definition fetchOrderForAddress :: "app_context \<Rightarrow> 'l deps \<Rightarrow> jsval \<Rightarrow> ('l, Order option) prog" where
  "fetchOrderForAddress ctx c address =
     call (GetOne (method_id (nativeMethod ctx)) address)
       (getOne c (method_id (nativeMethod ctx)) address)"

definition isGasPriceAndToAddressCorrect :: "app_context \<Rightarrow> transaction \<Rightarrow> bool" where
  "isGasPriceAndToAddressCorrect ctx tx =
     (case tx_to tx of
        None \<Rightarrow> False
      | Some t \<Rightarrow>
          t \<noteq> [] \<and> toLowerCase t = toLowerCase (evmAccount ctx) \<and> tx_gasPrice tx \<noteq> None)"

text \<open>The template literal of the success line.\<close>

definition stored_deposit :: "jsval \<Rightarrow> string \<Rightarrow> string \<Rightarrow> string \<Rightarrow> string" where
  "stored_deposit h amountAsEther a oid =
     ''Stored deposit. '' @ to_string h @ ''. '' @ amountAsEther @ '' '' @ a @ '' for order '' @ oid"

definition scanTxid :: "app_context \<Rightarrow> 'l deps \<Rightarrow> tx_input \<Rightarrow> ('l, bool) prog" where
  "scanTxid ctx c t =
     (if typeof_tx t \<noteq> ''object'' then throw (AssertionError ''tx is not object'')
      else case t of
        Prim _ \<Rightarrow> throw (TypeError ''Cannot read properties of null'')
      | Obj tx \<Rightarrow>
          if \<not> truthy (tx_from tx) then throw (AssertionError ''from missing'')
          else if typeof (tx_hash tx) \<noteq> ''string'' then throw (Error ''txid must be string'')
          else if typeof (tx_blockHash tx) \<noteq> ''string''
            then throw (Error ''blockHash must be string'')
          else if \<not> isGasPriceAndToAddressCorrect ctx tx then ret False
          else
            (case tx_gasPrice tx of
               None \<Rightarrow> throw (TypeError ''Cannot read properties of undefined'')
             | Some gasPrice \<Rightarrow>
                 and_then
                   (lift (total_of (decimal_of_nat (tx_value tx))
                      (decimal_of_nat (tx_gasLimit tx)) (decimal_of_nat gasPrice)))
                   (\<lambda>total.
                 and_then (fetchOrderForAddress ctx c (tx_from tx)) (\<lambda>found.
                   case found of
                     None \<Rightarrow> ret False
                   | Some ord \<Rightarrow>
                       let valueAsEther = formatEther (int (tx_value tx)) in
                       and_then (lift (formatEther_string total)) (\<lambda>totalAsEther.
                       let args = \<lparr>orderId = order_id ord, txid = tx_hash tx,
                                    amount = totalAsEther,
                                    uniqueId = getEthereumNativeDepositUniqueId c
                                      (nativeMethod ctx) (tx_hash tx)\<rparr> in
                       and_then
                         (call_ledger (MaybeInternalCreateDeposit args)
                            (maybeInternalCreateDeposit c args))
                         (\<lambda>wasCredited.
                           if \<not> wasCredited then ret False
                           else
                             and_then
                               (emit (LogInfo
                                  (stored_deposit (tx_hash tx) valueAsEther
                                     (asset (nativeMethod ctx)) (order_id ord)) []))
                               (\<lambda>_. ret True)))))))"

definition txlist_url :: "app_context \<Rightarrow> string \<Rightarrow> jsval \<Rightarrow> string" where
  "txlist_url ctx address blockNumber =
     ''https://api.etherscan.io/api?module=account&action=txlist&address='' @ address @
     ''&startblock='' @ to_string blockNumber @ ''&sort=desc&apikey='' @
     to_string (etherscanApiKey ctx)"

definition getblocknobytime_url :: "app_context \<Rightarrow> int \<Rightarrow> string" where
  "getblocknobytime_url ctx timestamp =
     ''https://api.etherscan.io/api?module=block&action=getblocknobytime&timestamp='' @
     decimal_of_int timestamp @ ''&closest=before&apikey='' @ to_string (etherscanApiKey ctx)"

definition getEtherScanTxListForAddress ::
  "app_context \<Rightarrow> 'l deps \<Rightarrow> string \<Rightarrow> jsval \<Rightarrow> ('l, candidate list) prog" where
  "getEtherScanTxListForAddress ctx c address blockNumber =
     and_then
       (call (AxiosGet (txlist_url ctx address blockNumber))
          (axios_get c (txlist_url ctx address blockNumber)))
       (\<lambda>res. lift (accountTxListResultSchema_parse res))"

definition getEtherScanBlocknumber :: "app_context \<Rightarrow> 'l deps \<Rightarrow> int \<Rightarrow> ('l, jsval) prog" where
  "getEtherScanBlocknumber ctx c timestamp =
     try_catch
       (call (AxiosGet (getblocknobytime_url ctx timestamp))
          (axios_get c (getblocknobytime_url ctx timestamp)))
       (\<lambda>e.
          and_then
            (emit (LogError (Some e) ''Error fetching block number for order timestamp %s: %s''
               [JNumber timestamp, JString (message e)]))
            (\<lambda>_. ret JUndefined))
       (\<lambda>blockNumber. ret (result blockNumber))"

text \<open>
  \<open>txs.filter((tx) => ethers.BigNumber.from(tx.value).gt(0))\<close>: the test may throw, and
  then the filter does.
\<close>

fun filter_gt0 :: "candidate list \<Rightarrow> error + candidate list" where
  "filter_gt0 [] = Inr []"
| "filter_gt0 (tx # txs) =
     (case BigNumber_from (c_value tx) of
        Inl e \<Rightarrow> Inl e
      | Inr v \<Rightarrow>
          (case filter_gt0 txs of
             Inl e \<Rightarrow> Inl e
           | Inr kept \<Rightarrow> Inr (if 0 < v then tx # kept else kept)))"

definition trimmedTxs :: "candidate list \<Rightarrow> error + candidate list" where
  "trimmedTxs txs =
     (case filter_gt0 txs of Inl e \<Rightarrow> Inl e | Inr kept \<Rightarrow> Inr (take 10 kept))"

text \<open>What the test of the filter sees in a row: a value it can read, one above zero, zero.\<close>

definition value_readable :: "candidate \<Rightarrow> bool" where
  "value_readable tx = (case BigNumber_from (c_value tx) of Inl _ \<Rightarrow> False | Inr _ \<Rightarrow> True)"

definition value_gt0 :: "candidate \<Rightarrow> bool" where
  "value_gt0 tx = (case BigNumber_from (c_value tx) of Inl _ \<Rightarrow> False | Inr v \<Rightarrow> 0 < v)"

definition value_zero :: "candidate \<Rightarrow> bool" where
  "value_zero tx = (case BigNumber_from (c_value tx) of Inl _ \<Rightarrow> False | Inr v \<Rightarrow> v = 0)"

text \<open>The function given to \<open>pMap\<close>, for one row of the explorer's list.\<close>

definition scan_candidate :: "app_context \<Rightarrow> 'l deps \<Rightarrow> candidate \<Rightarrow> ('l, unit) prog" where
  "scan_candidate ctx c etherscanTx =
     and_then
       (call (GetTransaction (c_hash etherscanTx)) (getTransaction c (c_hash etherscanTx)))
       (\<lambda>ethersTx.
          if \<not> truthy_tx ethersTx then
            emit (LogError None ''Transaction %s not found'' [JString (c_hash etherscanTx)])
          else
            and_then (emit (LogInfo ''Scanning tx %s'' [JString (c_hash etherscanTx)])) (\<lambda>_.
            and_then (scanTxid ctx c ethersTx) (\<lambda>_. ret ())))"

text \<open>
  The handler that \<open>runScanByOrderId\<close> gives to \<open>queue.run\<close>: the task of one order id.
  Its result is what the handler returns (\<open>undefined\<close> everywhere in this version).
\<close>

definition scan_order :: "app_context \<Rightarrow> 'l deps \<Rightarrow> string \<Rightarrow> ('l, jsval) prog" where
  "scan_order ctx c oid =
     and_then
       (emit (LogInfo ''Processing queued task to look at order %s for deposits'' [JString oid]))
       (\<lambda>_.
     and_then (call (FindOneBy oid) (findOneBy c oid)) (\<lambda>found.
       case found of
         None \<Rightarrow>
           and_then (emit (LogError None ''Order %s not found'' [JString oid]))
             (\<lambda>_. ret JUndefined)
       | Some ord \<Rightarrow>
           (case depositAddress ord of
              None \<Rightarrow>
                and_then (emit (LogError None ''Order %s has no deposit address'' [JString oid]))
                  (\<lambda>_. ret JUndefined)
            | Some address \<Rightarrow>
                and_then (getEtherScanBlocknumber ctx c (createdAt ord)) (\<lambda>blockNumber.
                  if \<not> truthy blockNumber then ret JUndefined
                  else
                    try_catch (getEtherScanTxListForAddress ctx c address blockNumber)
                      (\<lambda>e.
                         and_then
                           (emit (LogError (Some e) ''Error fetching txs for order %s: %s''
                              [JString oid, JString (message e)]))
                           (\<lambda>_. ret JUndefined))
                      (\<lambda>txs.
                         and_then (lift (trimmedTxs txs)) (\<lambda>trimmed.
                         and_then
                           (emit (LogInfo ''Found %s transactions for order %s''
                              [JNumber (int (length txs)), JString oid]))
                           (\<lambda>_.
                         and_then (pMap c (scan_candidate ctx c) trimmed)
                           (\<lambda>_. ret JUndefined))))))))"

definition runScanByOrderId :: "app_context \<Rightarrow> 'l deps \<Rightarrow> ('l, unit) prog" where
  "runScanByOrderId ctx c =
     and_then
       (call (EvmNativeConfirm (network ctx) True) (evmNativeConfirm c (network ctx) True))
       (\<lambda>queue_run.
          if \<not> truthy (etherscanApiKey ctx) then
            emit (LogError None ''Etherscan not configured'' [])
          else queue_run (\<lambda>oid. and_then (scan_order ctx c oid) (\<lambda>_. ret ())))"

definition runConfirmedNativeTokenExtraWorker :: "app_context \<Rightarrow> 'l deps \<Rightarrow> ('l, unit) prog" where
  "runConfirmedNativeTokenExtraWorker ctx c = runScanByOrderId ctx c"

subsection \<open>The refactored worker\<close>

definition fetchOrderForAddress_v2 ::
  "app_context \<Rightarrow> 'l deps \<Rightarrow> jsval \<Rightarrow> ('l, Order option) prog" where
  "fetchOrderForAddress_v2 ctx c address =
     call (GetOne (method_id (nativeMethod ctx)) address)
       (getOne c (method_id (nativeMethod ctx)) address)"

definition validateTx :: "tx_input \<Rightarrow> error + unit" where
  "validateTx t =
     (if typeof_tx t \<noteq> ''object'' then Inl (AssertionError ''tx is not object'')
      else case t of
        Prim _ \<Rightarrow> Inl (TypeError ''Cannot read properties of null'')
      | Obj tx \<Rightarrow>
          if \<not> truthy (tx_from tx) then Inl (AssertionError ''from missing'')
          else if typeof (tx_hash tx) \<noteq> ''string'' then Inl (Error ''txid must be string'')
          else if typeof (tx_blockHash tx) \<noteq> ''string''
            then Inl (Error ''blockHash must be string'')
          else Inr ())"

definition scanTxid_v2 :: "app_context \<Rightarrow> 'l deps \<Rightarrow> tx_input \<Rightarrow> ('l, bool) prog" where
  "scanTxid_v2 ctx c t =
     and_then (lift (validateTx t)) (\<lambda>_.
       case t of
         Prim _ \<Rightarrow> throw (TypeError ''Cannot destructure property hash'')
       | Obj tx \<Rightarrow>
           let txid = tx_hash tx in
           if \<not> isGasPriceAndToAddressCorrect ctx tx then ret False
           else
             (case tx_gasPrice tx of
                None \<Rightarrow> throw (TypeError ''Cannot read properties of undefined'')
              | Some gasPrice \<Rightarrow>
                  and_then
                    (lift (total_of (decimal_of_nat (tx_value tx))
                       (decimal_of_nat (tx_gasLimit tx)) (decimal_of_nat gasPrice)))
                    (\<lambda>total.
                  and_then (fetchOrderForAddress_v2 ctx c (tx_from tx)) (\<lambda>found.
                    case found of
                      None \<Rightarrow> ret False
                    | Some ord \<Rightarrow>
                        let valueAsEther = formatEther (int (tx_value tx)) in
                        and_then (lift (formatEther_string total)) (\<lambda>totalAsEther.
                        let args = \<lparr>orderId = order_id ord, txid = txid,
                                     amount = totalAsEther,
                                     uniqueId = getEthereumNativeDepositUniqueId c
                                       (nativeMethod ctx) txid\<rparr> in
                        and_then
                          (call_ledger (MaybeInternalCreateDeposit args)
                             (maybeInternalCreateDeposit c args))
                          (\<lambda>wasCredited.
                            if \<not> wasCredited then ret False
                            else
                              and_then
                                (emit (LogInfo
                                   (stored_deposit txid valueAsEther
                                      (asset (nativeMethod ctx)) (order_id ord)) []))
                                (\<lambda>_. ret True)))))))"

definition getEtherScanTxListForAddressInDesc ::
  "app_context \<Rightarrow> 'l deps \<Rightarrow> string \<Rightarrow> jsval \<Rightarrow> string \<Rightarrow> ('l, candidate list option) prog" where
  "getEtherScanTxListForAddressInDesc ctx c address blockNumber oid =
     try_catch
       (and_then
          (call (AxiosGet (txlist_url ctx address blockNumber))
             (axios_get c (txlist_url ctx address blockNumber)))
          (\<lambda>res. lift (accountTxListResultSchema_parse res)))
       (\<lambda>e.
          and_then
            (emit (LogError (Some e) ''Error fetching txs for order %s: %s''
               [JString oid, JString (message e)]))
            (\<lambda>_. ret None))
       (\<lambda>txList. ret (Some txList))"

definition getEtherScanBlocknumber_v2 :: "app_context \<Rightarrow> 'l deps \<Rightarrow> int \<Rightarrow> ('l, jsval) prog" where
  "getEtherScanBlocknumber_v2 ctx c timestamp =
     try_catch
       (call (AxiosGet (getblocknobytime_url ctx timestamp))
          (axios_get c (getblocknobytime_url ctx timestamp)))
       (\<lambda>e.
          and_then
            (emit (LogError (Some e) ''Error fetching block number for order timestamp %s: %s''
               [JNumber timestamp, JString (message e)]))
            (\<lambda>_. ret JUndefined))
       (\<lambda>blockNumber. ret (result blockNumber))"

definition checkIfOrderExistsAndOrderAddressAssigned ::
  "string \<Rightarrow> Order option \<Rightarrow> ('l, bool) prog" where
  "checkIfOrderExistsAndOrderAddressAssigned oid found =
     (case found of
        None \<Rightarrow> and_then (emit (LogError None ''Order %s not found'' [JString oid])) (\<lambda>_. ret False)
      | Some ord \<Rightarrow>
          (case depositAddress ord of
             None \<Rightarrow>
               and_then (emit (LogError None ''Order %s has no deposit address'' [JString oid]))
                 (\<lambda>_. ret False)
           | Some _ \<Rightarrow> ret True))"

definition scan_candidate_v2 :: "app_context \<Rightarrow> 'l deps \<Rightarrow> candidate \<Rightarrow> ('l, unit) prog" where
  "scan_candidate_v2 ctx c etherscanTx =
     and_then
       (call (GetTransaction (c_hash etherscanTx)) (getTransaction c (c_hash etherscanTx)))
       (\<lambda>ethersTx.
          if \<not> truthy_tx ethersTx then
            emit (LogError None ''Transaction %s not found'' [JString (c_hash etherscanTx)])
          else
            and_then (emit (LogInfo ''Scanning tx %s'' [JString (c_hash etherscanTx)])) (\<lambda>_.
            and_then (scanTxid_v2 ctx c ethersTx) (\<lambda>_. ret ())))"

text \<open>
  The refactored handler returns \<open>true\<close> when the order is missing or has no deposit
  address, and \<open>undefined\<close> elsewhere. After the check the order and its address are read
  again; on a missing one that read would throw.
\<close>

definition scan_order_v2 :: "app_context \<Rightarrow> 'l deps \<Rightarrow> string \<Rightarrow> ('l, jsval) prog" where
  "scan_order_v2 ctx c oid =
     and_then
       (emit (LogInfo ''Processing queued task to look at order %s for deposits'' [JString oid]))
       (\<lambda>_.
     and_then (call (FindOneBy oid) (findOneBy c oid)) (\<lambda>found.
     and_then (checkIfOrderExistsAndOrderAddressAssigned oid found)
       (\<lambda>isOrderAndOrderAddressCorrect.
       if \<not> isOrderAndOrderAddressCorrect then ret (JBoolean True)
       else
         (case found of
            None \<Rightarrow> throw (TypeError ''Cannot read properties of undefined'')
          | Some ord \<Rightarrow>
              and_then (getEtherScanBlocknumber_v2 ctx c (createdAt ord)) (\<lambda>blockNumber.
                if \<not> truthy blockNumber then ret JUndefined
                else
                  (case depositAddress ord of
                     None \<Rightarrow> throw (TypeError ''Cannot read properties of null'')
                   | Some address \<Rightarrow>
                       and_then
                         (getEtherScanTxListForAddressInDesc ctx c address blockNumber oid)
                         (\<lambda>fetched.
                            case fetched of
                              None \<Rightarrow> ret JUndefined
                            | Some txs \<Rightarrow>
                                and_then (lift (trimmedTxs txs)) (\<lambda>trimmed.
                                and_then
                                  (emit (LogInfo ''Found %s transactions for order %s''
                                     [JNumber (int (length txs)), JString oid]))
                                  (\<lambda>_.
                                and_then (pMap c (scan_candidate_v2 ctx c) trimmed)
                                  (\<lambda>_. ret JUndefined))))))))))"

definition runScanByOrderId_v2 :: "app_context \<Rightarrow> 'l deps \<Rightarrow> ('l, unit) prog" where
  "runScanByOrderId_v2 ctx c =
     and_then
       (call (EvmNativeConfirm (network ctx) True) (evmNativeConfirm c (network ctx) True))
       (\<lambda>queue_run.
          if \<not> truthy (etherscanApiKey ctx) then
            emit (LogError None ''Etherscan not configured'' [])
          else queue_run (\<lambda>oid. and_then (scan_order_v2 ctx c oid) (\<lambda>_. ret ())))"

definition runConfirmedNativeTokenExtraWorker_v2 ::
  "app_context \<Rightarrow> 'l deps \<Rightarrow> ('l, unit) prog" where
  "runConfirmedNativeTokenExtraWorker_v2 ctx c = runScanByOrderId_v2 ctx c"

subsection \<open>The credit ledger\<close>

text \<open>
  Modelled from the spec: the ledger behind \<open>maybeInternalCreateDeposit\<close> is an external
  service, not in the source file. The spec gives its contract: the call returns \<open>true\<close>
  only if it newly created a credit; it returns \<open>false\<close> if a credit with the same unique
  id already exists, or if the order cannot accept further credit. The state is the unique
  ids credited so far and the order ids that cannot accept credit.
\<close>

record ledger =
  credited :: "string list"
  closed :: "string list"

definition ledger_maybeCredit :: "credit_args \<Rightarrow> ledger \<Rightarrow> (error + bool) \<times> ledger" where
  "ledger_maybeCredit a L =
     (if uniqueId a \<in> set (credited L) \<or> orderId a \<in> set (closed L)
      then (Inr False, L)
      else (Inr True, L\<lparr>credited := uniqueId a # credited L\<rparr>))"

subsection \<open>Observations on a trace\<close>

definition is_credit_call :: "event \<Rightarrow> bool" where
  "is_credit_call ev = (case ev of MaybeInternalCreateDeposit _ \<Rightarrow> True | _ \<Rightarrow> False)"

definition is_log :: "event \<Rightarrow> bool" where
  "is_log ev = (case ev of LogInfo _ _ \<Rightarrow> True | LogError _ _ _ \<Rightarrow> True | _ \<Rightarrow> False)"

text \<open>The unique ids of the credit calls of a trace, in order.\<close>

fun credit_ids :: "event list \<Rightarrow> string list" where
  "credit_ids [] = []"
| "credit_ids (MaybeInternalCreateDeposit a # evs) = uniqueId a # credit_ids evs"
| "credit_ids (_ # evs) = credit_ids evs"

text \<open>
  The request \<open>scanTxid\<close> sends to the ledger for a transaction and the order found for its
  sender, and the line it logs after a credit.
\<close>

definition credit_request :: "app_context \<Rightarrow> 'l deps \<Rightarrow> transaction \<Rightarrow> Order \<Rightarrow> credit_args" where
  "credit_request ctx c tx ord =
     \<lparr>orderId = order_id ord, txid = tx_hash tx,
      amount = formatEther
        (int (tx_value tx + tx_gasLimit tx * the_default 0 (tx_gasPrice tx))),
      uniqueId = getEthereumNativeDepositUniqueId c (nativeMethod ctx) (tx_hash tx)\<rparr>"

definition success_line :: "app_context \<Rightarrow> transaction \<Rightarrow> Order \<Rightarrow> event" where
  "success_line ctx tx ord =
     LogInfo (stored_deposit (tx_hash tx) (formatEther (int (tx_value tx)))
       (asset (nativeMethod ctx)) (order_id ord)) []"

text \<open>A handler's outcome with its return value forgotten.\<close>

definition discard :: "('l, 'a) prog \<Rightarrow> ('l, unit) prog" where
  "discard m = and_then m (\<lambda>_. ret ())"

subsection \<open>Example inputs\<close>

definition row :: "string \<Rightarrow> string \<Rightarrow> candidate" where
  "row h v = \<lparr>c_hash = h, c_from = ''0xsender'', c_to = ''0xaccount'', c_value = v\<rparr>"

definition rows_mixed :: "candidate list" where
  "rows_mixed =
     [row ''h01'' ''5'', row ''h02'' ''0'', row ''h03'' ''7'', row ''h04'' ''1'',
      row ''h05'' ''0x0'', row ''h06'' ''2'', row ''h07'' ''3'', row ''h08'' ''4'',
      row ''h09'' ''0'', row ''h10'' ''6'', row ''h11'' ''8'', row ''h12'' ''9'',
      row ''h13'' ''0x1f'', row ''h14'' ''11'', row ''h15'' ''12'']"

definition rows_zero :: "candidate list" where
  "rows_zero = [row ''h01'' ''0'', row ''h02'' ''0x0'', row ''h03'' ''-0'']"

text \<open>
  An instance of \<open>pMap\<close> after p-map's defaults (no bound on concurrency, stop on the
  first error): every call of the mapper is started and runs to its end, here in the order
  of the list, and the result is the first failure, if there is one.
\<close>

fun pMap_all :: "('a \<Rightarrow> ('l, unit) prog) \<Rightarrow> 'a list \<Rightarrow> ('l, unit) prog" where
  "pMap_all f [] l = (Inr (), [], l)"
| "pMap_all f (x # xs) l =
     (case f x l of
        (r, t, l') \<Rightarrow>
          (case pMap_all f xs l' of
             (r', t', l'') \<Rightarrow> ((case r of Inl e \<Rightarrow> Inl e | Inr _ \<Rightarrow> r'), t @ t', l'')))"

definition ctx0 :: app_context where
  "ctx0 =
     \<lparr>nativeMethod = \<lparr>asset = ''ETH'', method_id = ''ethereum''\<rparr>, network = ''mainnet'',
      etherscanApiKey = JString ''KEY'', evmAccount = ''0xAcc0''\<rparr>"

definition tx0 :: transaction where
  "tx0 =
     \<lparr>tx_hash = JString ''0xabc'', tx_blockHash = JString ''0xb10c'',
      tx_from = JString ''0xsender'', tx_to = Some ''0xACC0'',
      tx_value = 5000000000000000000, tx_gasLimit = 21000, tx_gasPrice = Some 1000000000\<rparr>"

definition order0 :: Order where
  "order0 = \<lparr>order_id = ''o1'', depositAddress = Some ''0xsender'', createdAt = 1700000000000\<rparr>"

definition ledger0 :: ledger where
  "ledger0 = \<lparr>credited = [], closed = []\<rparr>"

definition deps0 :: "ledger deps" where
  "deps0 =
     \<lparr>findOneBy = (\<lambda>i. if i = ''o1'' then Inr (Some order0) else Inr None),
      getOne = (\<lambda>m a. if m = ''ethereum'' \<and> a = JString ''0xsender''
                        then Inr (Some order0) else Inr None),
      axios_get = (\<lambda>url. Inr \<lparr>result = JString ''18500000'',
                    accountTxListResultSchema_parse =
                      Inr [row ''0xabc'' ''5000000000000000000'']\<rparr>),
      getTransaction = (\<lambda>h. if h = ''0xabc'' then Inr (Obj tx0) else Inr (Prim JNull)),
      maybeInternalCreateDeposit = ledger_maybeCredit,
      getEthereumNativeDepositUniqueId = (\<lambda>m h. method_id m @ ''/'' @ to_string h),
      pMap = pMap_all,
      evmNativeConfirm = (\<lambda>n durable. Inr (\<lambda>handler. handler ''o1''))\<rparr>"



section \<open>Properties\<close>

subsection \<open>Decimal strings denote what they print\<close>

lemma digit_cases:
  "d < (10::nat) \<Longrightarrow> d \<in> {0, 1, 2, 3, 4, 5, 6, 7, 8, 9}"
  by (simp only: insert_iff empty_iff) presburger

lemma digit_val_digit_char: "d < 10 \<Longrightarrow> digit_val (digit_char d) = Some d"
  by (drule digit_cases) (auto simp add: digit_val_def digit_char_def digit_table_def)

lemma is_digit_digit_char: "d < 10 \<Longrightarrow> is_digit (digit_char d)"
  by (simp add: is_digit_def digit_val_digit_char)

lemma digits_val_append: "digits_val acc (xs @ ys) = digits_val (digits_val acc xs) ys"
  by (induction xs arbitrary: acc) simp_all

lemma digits_val_decimal_of_nat: "digits_val 0 (decimal_of_nat n) = n"
proof (induction n rule: decimal_of_nat.induct)
  case (1 n)
  show ?case
  proof (cases "n < 10")
    case True
    then show ?thesis
      by (simp add: decimal_of_nat.simps [of n] digit_val_digit_char the_default_def)
  next
    case False
    with 1 have "digits_val 0 (decimal_of_nat (n div 10)) = n div 10"
      by simp
    with False show ?thesis
      by (simp add: decimal_of_nat.simps [of n] digits_val_append digit_val_digit_char the_default_def)
  qed
qed

lemma is_decimal_decimal_of_nat: "is_decimal (decimal_of_nat n)"
proof (induction n rule: decimal_of_nat.induct)
  case (1 n)
  show ?case
  proof (cases "n < 10")
    case True
    then show ?thesis
      by (simp add: decimal_of_nat.simps [of n] is_decimal_def is_digit_digit_char)
  next
    case False
    with 1 have "is_decimal (decimal_of_nat (n div 10))"
      by simp
    with False show ?thesis
      by (simp add: decimal_of_nat.simps [of n] is_decimal_def is_digit_digit_char)
  qed
qed

lemma nat_of_decimal_of_nat: "nat_of_decimal (decimal_of_nat n) = Some n"
  by (simp add: nat_of_decimal_def is_decimal_decimal_of_nat digits_val_decimal_of_nat)

lemma total_of_decimal:
  assumes "nat_of_decimal v = Some a"
    and "nat_of_decimal gasLimit = Some l"
    and "nat_of_decimal gasPrice = Some p"
  shows "total_of v gasLimit gasPrice = Inr (decimal_of_nat (a + l * p))"
  using assms by (simp add: total_of_def ns_times_def ns_sum_def nat_of_decimal_of_nat)

lemmas decimal_eval =
  nat_of_decimal_def is_decimal_def is_digit_def digit_val_def digit_table_def
  decimal_of_nat.simps digit_char_def the_default_def

lemma is_digit_not_minus: "is_digit c \<Longrightarrow> c \<noteq> CHR ''-''"
  by (auto simp add: is_digit_def digit_val_def digit_table_def)

lemma is_digit_not_x: "is_digit c \<Longrightarrow> c \<noteq> CHR ''x'' \<and> c \<noteq> CHR ''X''"
  by (auto simp add: is_digit_def digit_val_def digit_table_def)

lemma magnitude_of_decimal: "is_decimal s \<Longrightarrow> magnitude_of s = nat_of_decimal s"
  by (auto simp add: magnitude_of_def is_decimal_def split: list.splits dest: is_digit_not_x)

lemma BigNumber_from_decimal:
  assumes "is_decimal s"
  shows "BigNumber_from s = Inr (int (digits_val 0 s))"
proof -
  from assms obtain c r where s: "s = c # r" and c: "is_digit c"
    by (cases s) (auto simp add: is_decimal_def)
  from c have "c \<noteq> CHR ''-''" by (rule is_digit_not_minus)
  with s assms show ?thesis
    by (simp add: BigNumber_from_def magnitude_of_decimal nat_of_decimal_def)
qed

lemma BigNumber_from_decimal_of_nat: "BigNumber_from (decimal_of_nat n) = Inr (int n)"
  by (simp add: BigNumber_from_decimal is_decimal_decimal_of_nat digits_val_decimal_of_nat)

lemma formatEther_string_decimal_of_nat:
  "formatEther_string (decimal_of_nat n) = Inr (formatEther (int n))"
  by (simp add: formatEther_string_def BigNumber_from_decimal_of_nat)

lemma total_of_nat:
  "total_of (decimal_of_nat a) (decimal_of_nat l) (decimal_of_nat p) =
     Inr (decimal_of_nat (a + l * p))"
  by (simp add: total_of_decimal nat_of_decimal_of_nat)

subsection \<open>The total of a transaction\<close>

text \<open>
  Claim C2, as amended. For all strings of decimal digits \<open>value\<close>, \<open>gasLimit\<close> and
  \<open>gasPrice\<close>, the total is computed without error and is the decimal string of
  \<open>value + gasLimit * gasPrice\<close>, which reads back as exactly that number. The spec's
  example comes out as 1001050000000000000.
\<close>

theorem total_exact:
  assumes "is_decimal v" and "is_decimal gasLimit" and "is_decimal gasPrice"
  shows "\<exists>t. total_of v gasLimit gasPrice = Inr t \<and>
           t = decimal_of_nat (digits_val 0 v + digits_val 0 gasLimit * digits_val 0 gasPrice) \<and>
           nat_of_decimal t =
             Some (digits_val 0 v + digits_val 0 gasLimit * digits_val 0 gasPrice)"
  using assms
  by (simp add: total_of_decimal nat_of_decimal_def
      nat_of_decimal_of_nat [unfolded nat_of_decimal_def])

theorem total_exact_witness:
  "is_decimal ''1000000000000000000'' \<and> is_decimal ''21000'' \<and> is_decimal ''50000000000'' \<and>
   total_of ''1000000000000000000'' ''21000'' ''50000000000'' = Inr ''1001050000000000000'' \<and>
   nat_of_decimal ''1001050000000000000'' = Some (1000000000000000000 + 21000 * 50000000000)"
proof -
  have v: "is_decimal ''1000000000000000000''" by (simp add: decimal_eval)
  have l: "is_decimal ''21000''" by (simp add: decimal_eval)
  have p: "is_decimal ''50000000000''" by (simp add: decimal_eval)
  have dv: "digits_val 0 ''1000000000000000000'' = 1000000000000000000"
    by (simp add: decimal_eval)
  have dl: "digits_val 0 ''21000'' = 21000" by (simp add: decimal_eval)
  have dp: "digits_val 0 ''50000000000'' = 50000000000" by (simp add: decimal_eval)
  have out: "decimal_of_nat 1001050000000000000 = ''1001050000000000000''"
    by (simp add: decimal_eval)
  have added: "(1000000000000000000::nat) + 21000 * 50000000000 = 1001050000000000000"
    by simp
  have reread: "nat_of_decimal ''1001050000000000000'' = Some 1001050000000000000"
    by (simp add: decimal_eval)
  from total_exact [OF v l p, unfolded dv dl dp added out]
  have "total_of ''1000000000000000000'' ''21000'' ''50000000000'' = Inr ''1001050000000000000''"
    by blast
  with v l p reread show ?thesis
    by simp
qed

text \<open>
  The total that claim C2 gives for its example, 2050000000000000000, is not what the
  computation returns.
\<close>

theorem total_example_counterexample:
  "total_of ''1000000000000000000'' ''21000'' ''50000000000'' \<noteq> Inr ''2050000000000000000''"
  by (simp add: total_of_def ns_times_def ns_sum_def decimal_eval)

subsection \<open>Selecting the candidates\<close>

lemma filter_gt0_readable:
  "list_all value_readable txs \<Longrightarrow> filter_gt0 txs = Inr (filter value_gt0 txs)"
  by (induction txs) (auto simp add: value_readable_def value_gt0_def split: sum.splits)

lemma filter_gt0_Inr:
  "filter_gt0 txs = Inr kept \<Longrightarrow> list_all value_readable txs \<and> kept = filter value_gt0 txs"
  by (induction txs arbitrary: kept)
    (auto simp add: value_readable_def value_gt0_def split: sum.splits if_splits)

lemma filter_gt0_Inl: "filter_gt0 txs = Inl e \<Longrightarrow> \<not> list_all value_readable txs"
  using filter_gt0_readable by fastforce

lemma trimmedTxs_Inr:
  "trimmedTxs txs = Inr out \<Longrightarrow>
     list_all value_readable txs \<and> out = take 10 (filter value_gt0 txs)"
  by (auto simp add: trimmedTxs_def split: sum.splits dest: filter_gt0_Inr)

lemma trimmedTxs_Inl: "trimmedTxs txs = Inl e \<Longrightarrow> \<not> list_all value_readable txs"
  by (auto simp add: trimmedTxs_def split: sum.splits dest: filter_gt0_Inl)

lemma value_zero_not_gt0: "list_all value_zero txs \<Longrightarrow> filter value_gt0 txs = []"
  by (induction txs) (auto simp add: value_zero_def value_gt0_def split: sum.splits)

lemma list_all_take_filter: "list_all P (take n (filter P xs))"
  by (auto simp add: list_all_iff dest: in_set_takeD)

lemma subseq_take_filter: "subseq (take n (filter P xs)) xs"
proof -
  have "subseq (take n (filter P xs)) (filter P xs)"
    by (rule prefix_imp_subseq) (rule take_is_prefix)
  moreover have "subseq (filter P xs) xs"
    by simp
  ultimately show ?thesis
    by (rule subseq_order.trans)
qed

text \<open>
  Claim C4. For any list of rows, the selection fails only when some row has a value that
  cannot be read. Otherwise it gives the first ten of the rows with a value above zero (all
  of them when there are fewer): at most 10 rows, \<open>min 10 n\<close> for \<open>n\<close> such rows, each with a
  value above zero, an initial part of the rows with a value above zero, in the order of
  the input. When every row has the value zero (and so for the empty list) the output is
  empty and there is no error.
\<close>

theorem candidate_selection:
  "case trimmedTxs txs of
     Inl e \<Rightarrow> \<not> list_all value_readable txs
   | Inr out \<Rightarrow>
       list_all value_readable txs \<and> out = take 10 (filter value_gt0 txs) \<and>
       length out = min 10 (length (filter value_gt0 txs)) \<and>
       length out \<le> 10 \<and> list_all value_gt0 out \<and> prefix out (filter value_gt0 txs) \<and>
       subseq out txs \<and> (list_all value_zero txs \<longrightarrow> out = [])"
proof (cases "trimmedTxs txs")
  case (Inl e)
  then show ?thesis
    by (simp add: trimmedTxs_Inl)
next
  case (Inr out)
  then have readable: "list_all value_readable txs"
    and out: "out = take 10 (filter value_gt0 txs)"
    by (simp_all add: trimmedTxs_Inr)
  have "length out = min 10 (length (filter value_gt0 txs))" by (simp add: out)
  moreover have "length out \<le> 10" by (simp add: out)
  moreover have "list_all value_gt0 out" by (simp add: out list_all_take_filter)
  moreover have "prefix out (filter value_gt0 txs)" by (simp add: out take_is_prefix)
  moreover have "subseq out txs" by (simp add: out subseq_take_filter)
  moreover have "list_all value_zero txs \<longrightarrow> out = []" by (simp add: out value_zero_not_gt0)
  ultimately show ?thesis
    using Inr readable out by simp
qed

text \<open>Evaluating the examples.\<close>

lemmas BigNumber_eval =
  BigNumber_from_def magnitude_of_def nat_of_hex_def is_hex_digit_def hex_val_def hex_table_def
  nat_of_decimal_def is_decimal_def is_digit_def digit_val_def digit_table_def the_default_def

lemmas rows_eval =
  trimmedTxs_def value_zero_def value_gt0_def value_readable_def row_def BigNumber_eval

lemma upper_case_prefix_unreadable:
  "BigNumber_from ''0X1F'' = Inl (InvalidBigNumber ''0X1F'') \<and>
   trimmedTxs [row ''h01'' ''5'', row ''h02'' ''0X1F''] = Inl (InvalidBigNumber ''0X1F'')"
  by (simp add: rows_eval)

theorem candidate_selection_witness:
  "trimmedTxs rows_mixed =
     Inr [row ''h01'' ''5'', row ''h03'' ''7'', row ''h04'' ''1'', row ''h06'' ''2'',
          row ''h07'' ''3'', row ''h08'' ''4'', row ''h10'' ''6'', row ''h11'' ''8'',
          row ''h12'' ''9'', row ''h13'' ''0x1f''] \<and>
   take 10 (filter value_gt0 rows_mixed) =
     [row ''h01'' ''5'', row ''h03'' ''7'', row ''h04'' ''1'', row ''h06'' ''2'',
      row ''h07'' ''3'', row ''h08'' ''4'', row ''h10'' ''6'', row ''h11'' ''8'',
      row ''h12'' ''9'', row ''h13'' ''0x1f''] \<and>
   list_all value_zero rows_zero \<and> trimmedTxs rows_zero = Inr []"
proof -
  have mixed: "trimmedTxs rows_mixed =
     Inr [row ''h01'' ''5'', row ''h03'' ''7'', row ''h04'' ''1'', row ''h06'' ''2'',
          row ''h07'' ''3'', row ''h08'' ''4'', row ''h10'' ''6'', row ''h11'' ''8'',
          row ''h12'' ''9'', row ''h13'' ''0x1f'']"
    by (simp add: rows_mixed_def rows_eval)
  from candidate_selection [of rows_mixed]
  have first_ten: "take 10 (filter value_gt0 rows_mixed) =
     [row ''h01'' ''5'', row ''h03'' ''7'', row ''h04'' ''1'', row ''h06'' ''2'',
      row ''h07'' ''3'', row ''h08'' ''4'', row ''h10'' ''6'', row ''h11'' ''8'',
      row ''h12'' ''9'', row ''h13'' ''0x1f'']"
    unfolding mixed by simp
  have zero: "list_all value_zero rows_zero"
    by (simp add: rows_zero_def rows_eval)
  from candidate_selection [of rows_zero] zero have "trimmedTxs rows_zero = Inr []"
    by (cases "trimmedTxs rows_zero") (simp_all add: rows_zero_def rows_eval)
  with mixed first_ten zero show ?thesis
    by simp
qed

text \<open>
  Claim C5, as amended. When every value can be read, the selection returns
  \<open>min 10 n\<close> rows, \<open>n\<close> being the number of rows with a value above zero: with ten or
  more such rows it returns exactly the first ten of them, wherever the zero-value rows
  stand.
\<close>

theorem ten_positive_gives_ten:
  assumes "list_all value_readable txs"
  shows "\<exists>out. trimmedTxs txs = Inr out \<and>
           length out = min 10 (length (filter value_gt0 txs)) \<and>
           (10 \<le> length (filter value_gt0 txs) \<longrightarrow>
              length out = 10 \<and> out = take 10 (filter value_gt0 txs))"
  using assms by (simp add: trimmedTxs_def filter_gt0_readable)

theorem ten_positive_gives_ten_witness:
  "list_all value_readable rows_mixed \<and> 10 \<le> length (filter value_gt0 rows_mixed) \<and>
   (\<exists>out. trimmedTxs rows_mixed = Inr out \<and> length out = 10)"
proof -
  have r: "list_all value_readable rows_mixed"
    by (simp add: rows_mixed_def rows_eval)
  have n: "10 \<le> length (filter value_gt0 rows_mixed)"
    by (simp add: rows_mixed_def rows_eval)
  from ten_positive_gives_ten [OF r] n r show ?thesis
    by blast
qed

text \<open>
  Claim C5 as stated fails: no input with ten rows of positive value makes the selection
  return fewer than ten.
\<close>

theorem fewer_than_ten_counterexample:
  "\<not> (\<exists>txs out. trimmedTxs txs = Inr out \<and> 10 \<le> length (filter value_gt0 txs) \<and>
        length out < 10)"
  by (auto dest!: trimmedTxs_Inr)

subsection \<open>Scanning one transaction\<close>

lemmas prog_defs =
  ret_def throw_def lift_def emit_def call_def call_ledger_def and_then_def try_catch_def

lemma scanTxid_v2_eq: "scanTxid_v2 ctx c t l = scanTxid ctx c t l"
  by (cases t)
    (auto simp add: scanTxid_v2_def scanTxid_def validateTx_def fetchOrderForAddress_v2_def
      fetchOrderForAddress_def prog_defs Let_def
      split: option.splits sum.splits prod.splits)

lemma validateTx_Inr:
  "validateTx t = Inr u \<longleftrightarrow>
     (\<exists>tx. t = Obj tx \<and> truthy (tx_from tx) \<and> typeof (tx_hash tx) = ''string'' \<and>
        typeof (tx_blockHash tx) = ''string'')"
  by (cases t) (auto simp add: validateTx_def typeof_tx_def)

lemma scanTxid_invalid: "validateTx t = Inl e \<Longrightarrow> scanTxid ctx c t l = (Inl e, [], l)"
  by (cases t) (auto simp add: validateTx_def scanTxid_def throw_def split: if_splits)

lemma scanTxid_irrelevant:
  assumes "validateTx (Obj tx) = Inr ()" and "\<not> isGasPriceAndToAddressCorrect ctx tx"
  shows "scanTxid ctx c (Obj tx) l = (Inr False, [], l)"
  using assms
  by (auto simp add: validateTx_def scanTxid_def typeof_tx_def ret_def split: if_splits)

lemma scanTxid_relevant:
  assumes "validateTx (Obj tx) = Inr ()" and "isGasPriceAndToAddressCorrect ctx tx"
  shows "scanTxid ctx c (Obj tx) l =
    (case getOne c (method_id (nativeMethod ctx)) (tx_from tx) of
       Inl e \<Rightarrow> (Inl e, [GetOne (method_id (nativeMethod ctx)) (tx_from tx)], l)
     | Inr None \<Rightarrow> (Inr False, [GetOne (method_id (nativeMethod ctx)) (tx_from tx)], l)
     | Inr (Some ord) \<Rightarrow>
         (case maybeInternalCreateDeposit c (credit_request ctx c tx ord) l of
            (Inl e, l') \<Rightarrow>
              (Inl e, [GetOne (method_id (nativeMethod ctx)) (tx_from tx),
                 MaybeInternalCreateDeposit (credit_request ctx c tx ord)], l')
          | (Inr b, l') \<Rightarrow>
              if b then
                (Inr True, [GetOne (method_id (nativeMethod ctx)) (tx_from tx),
                   MaybeInternalCreateDeposit (credit_request ctx c tx ord),
                   success_line ctx tx ord], l')
              else
                (Inr False, [GetOne (method_id (nativeMethod ctx)) (tx_from tx),
                   MaybeInternalCreateDeposit (credit_request ctx c tx ord)], l')))"
proof -
  from assms(2) obtain gp where gp: "tx_gasPrice tx = Some gp"
    by (auto simp add: isGasPriceAndToAddressCorrect_def split: option.splits)
  from assms(1) have valid: "truthy (tx_from tx)" "typeof (tx_hash tx) = ''string''"
    "typeof (tx_blockHash tx) = ''string''"
    by (simp_all add: validateTx_Inr)
  show ?thesis
    using assms(2) valid gp
    by (simp add: scanTxid_def typeof_tx_def total_of_nat formatEther_string_decimal_of_nat
        fetchOrderForAddress_def credit_request_def success_line_def the_default_def
        prog_defs Let_def
        split: option.splits sum.splits prod.splits)
qed

lemma scanTxid_run:
  assumes "scanTxid ctx c (Obj tx) l = (r, tr, l')"
  shows "(credit_ids tr = [] \<and> list_all (\<lambda>ev. \<not> is_credit_call ev) tr \<and> l' = l \<and> r \<noteq> Inr True) \<or>
         (\<exists>ord. validateTx (Obj tx) = Inr () \<and> isGasPriceAndToAddressCorrect ctx tx \<and>
            getOne c (method_id (nativeMethod ctx)) (tx_from tx) = Inr (Some ord) \<and>
            maybeInternalCreateDeposit c (credit_request ctx c tx ord) l = (r, l') \<and>
            tr = [GetOne (method_id (nativeMethod ctx)) (tx_from tx),
                  MaybeInternalCreateDeposit (credit_request ctx c tx ord)] @
                 (if r = Inr True then [success_line ctx tx ord] else []))"
proof (cases "validateTx (Obj tx)")
  case (Inl e)
  with assms show ?thesis
    by (auto simp add: scanTxid_invalid)
next
  case (Inr u)
  then have valid: "validateTx (Obj tx) = Inr ()"
    by simp
  show ?thesis
  proof (cases "isGasPriceAndToAddressCorrect ctx tx")
    case False
    with assms valid show ?thesis
      by (auto simp add: scanTxid_irrelevant)
  next
    case True
    from assms show ?thesis
      unfolding scanTxid_relevant [OF valid True]
      using valid True
      by (auto simp add: is_credit_call_def split: sum.splits option.splits prod.splits if_splits)
  qed
qed

subsection \<open>The examples, evaluated\<close>

lemmas js_eval = typeof_def truthy_def to_string_def typeof_tx_def truthy_tx_def

lemmas example_defs = ctx0_def tx0_def order0_def deps0_def ledger0_def

lemma formatEther_value0: "formatEther 5000000000000000000 = ''5.0''"
proof -
  have d: "decimal_of_nat 0 = ''0''" "decimal_of_nat 5 = ''5''"
    by (simp_all add: decimal_of_nat.simps digit_char_def)
  have p: "pad18 ''0'' = ''000000000000000000''"
    by (simp add: pad18_def eval_nat_numeral)
  have s: "strip_trailing_zeros ''000000000000000000'' = ''0''"
    by (simp add: strip_trailing_zeros_def)
  show ?thesis
    by (simp add: formatEther_def d p s)
qed

lemma formatEther_total0: "formatEther 5000021000000000000 = ''5.000021''"
proof -
  have d: "decimal_of_nat 21000000000000 = ''21000000000000''" "decimal_of_nat 5 = ''5''"
    by (simp_all add: decimal_of_nat.simps digit_char_def)
  have p: "pad18 ''21000000000000'' = ''000021000000000000''"
    by (simp add: pad18_def eval_nat_numeral)
  have s: "strip_trailing_zeros ''000021000000000000'' = ''000021''"
    by (simp add: strip_trailing_zeros_def)
  show ?thesis
    by (simp add: formatEther_def d p s)
qed

lemma valid_tx0: "validateTx (Obj tx0) = Inr ()"
  by (simp add: validateTx_def tx0_def js_eval)

lemma relevant_tx0: "isGasPriceAndToAddressCorrect ctx0 tx0"
  by (simp add: isGasPriceAndToAddressCorrect_def ctx0_def tx0_def toLowerCase_def
      lower_table_def the_default_def)

lemma credit_request0:
  "credit_request ctx0 deps0 tx0 order0 =
     \<lparr>orderId = ''o1'', txid = JString ''0xabc'', amount = ''5.000021'',
      uniqueId = ''ethereum/0xabc''\<rparr>"
  using formatEther_total0
  by (simp add: credit_request_def example_defs the_default_def to_string_def)

lemma success_line0:
  "success_line ctx0 tx0 order0 = LogInfo ''Stored deposit. 0xabc. 5.0 ETH for order o1'' []"
  using formatEther_value0
  by (simp add: success_line_def stored_deposit_def example_defs to_string_def)

lemma getOne0: "getOne deps0 (method_id (nativeMethod ctx0)) (tx_from tx0) = Inr (Some order0)"
  by (simp add: example_defs)

lemma ledger0_credit:
  "maybeInternalCreateDeposit deps0 a ledger0 =
     (Inr True, \<lparr>credited = [uniqueId a], closed = []\<rparr>)"
  by (simp add: deps0_def ledger0_def ledger_maybeCredit_def)

lemma scan_tx0:
  "scanTxid ctx0 deps0 (Obj tx0) ledger0 =
     (Inr True,
      [GetOne ''ethereum'' (JString ''0xsender''),
       MaybeInternalCreateDeposit
         \<lparr>orderId = ''o1'', txid = JString ''0xabc'', amount = ''5.000021'',
          uniqueId = ''ethereum/0xabc''\<rparr>,
       LogInfo ''Stored deposit. 0xabc. 5.0 ETH for order o1'' []],
      \<lparr>credited = [''ethereum/0xabc''], closed = []\<rparr>)"
proof -
  have m: "method_id (nativeMethod ctx0) = ''ethereum''" and f: "tx_from tx0 = JString ''0xsender''"
    by (simp_all add: ctx0_def tx0_def)
  show ?thesis
    by (simp add: scanTxid_relevant [OF valid_tx0 relevant_tx0] getOne0 ledger0_credit
        credit_request0 success_line0) (simp add: m f)
qed

lemma scan_tx0_again:
  "scanTxid ctx0 deps0 (Obj tx0) \<lparr>credited = [''ethereum/0xabc''], closed = []\<rparr> =
     (Inr False,
      [GetOne ''ethereum'' (JString ''0xsender''),
       MaybeInternalCreateDeposit
         \<lparr>orderId = ''o1'', txid = JString ''0xabc'', amount = ''5.000021'',
          uniqueId = ''ethereum/0xabc''\<rparr>],
      \<lparr>credited = [''ethereum/0xabc''], closed = []\<rparr>)"
proof -
  have m: "method_id (nativeMethod ctx0) = ''ethereum''" and f: "tx_from tx0 = JString ''0xsender''"
    by (simp_all add: ctx0_def tx0_def)
  have led: "maybeInternalCreateDeposit deps0
      \<lparr>orderId = ''o1'', txid = JString ''0xabc'', amount = ''5.000021'',
       uniqueId = ''ethereum/0xabc''\<rparr> \<lparr>credited = [''ethereum/0xabc''], closed = []\<rparr> =
      (Inr False, \<lparr>credited = [''ethereum/0xabc''], closed = []\<rparr>)"
    by (simp add: deps0_def ledger_maybeCredit_def)
  show ?thesis
    by (simp add: scanTxid_relevant [OF valid_tx0 relevant_tx0] getOne0 led credit_request0)
      (simp add: m f)
qed

text \<open>The task of order \<open>o1\<close>, from the queue to the credit.\<close>

lemma created0: "decimal_of_int 1700000000000 = ''1700000000000''"
  by (simp add: decimal_of_int_def decimal_of_nat.simps digit_char_def)

lemma block_url0:
  "getblocknobytime_url ctx0 (createdAt order0) =
     ''https://api.etherscan.io/api?module=block&action=getblocknobytime&timestamp=1700000000000&closest=before&apikey=KEY''"
  by (simp add: getblocknobytime_url_def ctx0_def order0_def created0 to_string_def)

lemma txlist_url0:
  "txlist_url ctx0 ''0xsender'' (JString ''18500000'') =
     ''https://api.etherscan.io/api?module=account&action=txlist&address=0xsender&startblock=18500000&sort=desc&apikey=KEY''"
  by (simp add: txlist_url_def ctx0_def to_string_def)

lemma trimmed0:
  "trimmedTxs [row ''0xabc'' ''5000000000000000000''] = Inr [row ''0xabc'' ''5000000000000000000'']"
  by (simp add: rows_eval)

lemma candidate0:
  "scan_candidate ctx0 deps0 (row ''0xabc'' ''5000000000000000000'') ledger0 =
     (Inr (),
      [GetTransaction ''0xabc'', LogInfo ''Scanning tx %s'' [JString ''0xabc''],
       GetOne ''ethereum'' (JString ''0xsender''),
       MaybeInternalCreateDeposit
         \<lparr>orderId = ''o1'', txid = JString ''0xabc'', amount = ''5.000021'',
          uniqueId = ''ethereum/0xabc''\<rparr>,
       LogInfo ''Stored deposit. 0xabc. 5.0 ETH for order o1'' []],
      \<lparr>credited = [''ethereum/0xabc''], closed = []\<rparr>)"
proof -
  have node: "getTransaction deps0 (c_hash (row ''0xabc'' ''5000000000000000000'')) = Inr (Obj tx0)"
    by (simp add: deps0_def row_def)
  show ?thesis
    by (simp add: scan_candidate_def node scan_tx0 truthy_tx_def prog_defs) (simp add: row_def)
qed

lemma task_o1:
  "scan_order ctx0 deps0 ''o1'' ledger0 =
     (Inr JUndefined,
      [LogInfo ''Processing queued task to look at order %s for deposits'' [JString ''o1''],
       FindOneBy ''o1'',
       AxiosGet ''https://api.etherscan.io/api?module=block&action=getblocknobytime&timestamp=1700000000000&closest=before&apikey=KEY'',
       AxiosGet ''https://api.etherscan.io/api?module=account&action=txlist&address=0xsender&startblock=18500000&sort=desc&apikey=KEY'',
       LogInfo ''Found %s transactions for order %s'' [JNumber 1, JString ''o1''],
       GetTransaction ''0xabc'', LogInfo ''Scanning tx %s'' [JString ''0xabc''],
       GetOne ''ethereum'' (JString ''0xsender''),
       MaybeInternalCreateDeposit
         \<lparr>orderId = ''o1'', txid = JString ''0xabc'', amount = ''5.000021'',
          uniqueId = ''ethereum/0xabc''\<rparr>,
       LogInfo ''Stored deposit. 0xabc. 5.0 ETH for order o1'' []],
      \<lparr>credited = [''ethereum/0xabc''], closed = []\<rparr>)"
proof -
  have store: "findOneBy deps0 ''o1'' = Inr (Some order0)"
    and address: "depositAddress order0 = Some ''0xsender''"
    and explorer: "axios_get deps0 = (\<lambda>url. Inr \<lparr>result = JString ''18500000'',
        accountTxListResultSchema_parse = Inr [row ''0xabc'' ''5000000000000000000'']\<rparr>)"
    and pool: "pMap deps0 = pMap_all"
    by (simp_all add: deps0_def order0_def)
  show ?thesis
    by (simp add: scan_order_def getEtherScanBlocknumber_def getEtherScanTxListForAddress_def
        store address explorer pool block_url0 txlist_url0 trimmed0 candidate0 truthy_def
        prog_defs)
qed

subsection \<open>The structural guard\<close>

text \<open>
  Claim C8. A record that is not an object, or whose \<open>from\<close> is absent or empty (not
  truthy), or whose \<open>hash\<close> is not a string, or whose \<open>blockHash\<close> is not a string, makes
  the guard fail with an error; both versions of \<open>scanTxid\<close> then fail with that error
  before any call to a collaborator and with the ledger untouched.
\<close>

theorem structural_guard:
  assumes "case t of
             Prim v \<Rightarrow> True
           | Obj tx \<Rightarrow>
               \<not> truthy (tx_from tx) \<or> typeof (tx_hash tx) \<noteq> ''string'' \<or>
               typeof (tx_blockHash tx) \<noteq> ''string''"
  shows "\<exists>e. validateTx t = Inl e \<and> scanTxid_v2 ctx c t l = (Inl e, [], l) \<and>
           scanTxid ctx c t l = (Inl e, [], l)"
proof -
  from assms have "\<not> (\<exists>u. validateTx t = Inr u)"
    by (auto simp add: validateTx_Inr)
  then obtain e where "validateTx t = Inl e"
    by (cases "validateTx t") auto
  then show ?thesis
    by (simp add: scanTxid_v2_eq scanTxid_invalid)
qed

theorem structural_guard_witness:
  "typeof (tx_blockHash (tx0\<lparr>tx_blockHash := JNull\<rparr>)) \<noteq> ''string'' \<and>
   validateTx (Obj (tx0\<lparr>tx_blockHash := JNull\<rparr>)) = Inl (Error ''blockHash must be string'') \<and>
   scanTxid ctx0 deps0 (Obj (tx0\<lparr>tx_blockHash := JNull\<rparr>)) ledger0 =
     (Inl (Error ''blockHash must be string''), [], ledger0) \<and>
   scanTxid_v2 ctx0 deps0 (Obj (tx0\<lparr>tx_blockHash := JNull\<rparr>)) ledger0 =
     (Inl (Error ''blockHash must be string''), [], ledger0)"
proof -
  have pending: "typeof (tx_blockHash (tx0\<lparr>tx_blockHash := JNull\<rparr>)) \<noteq> ''string''"
    by (simp add: js_eval)
  then have malformed:
    "case Obj (tx0\<lparr>tx_blockHash := JNull\<rparr>) of
       Prim v \<Rightarrow> True
     | Obj tx \<Rightarrow>
         \<not> truthy (tx_from tx) \<or> typeof (tx_hash tx) \<noteq> ''string'' \<or>
         typeof (tx_blockHash tx) \<noteq> ''string''"
    by simp
  have guard: "validateTx (Obj (tx0\<lparr>tx_blockHash := JNull\<rparr>)) =
      Inl (Error ''blockHash must be string'')"
    by (simp add: validateTx_def tx0_def js_eval)
  from structural_guard [OF malformed, of ctx0 deps0 ledger0] guard pending show ?thesis
    by auto
qed

subsection \<open>Transactions that are not for this worker\<close>

text \<open>
  Claim C3. For a transaction that passes the guard, when \<open>to\<close> is absent or empty, or
  does not equal the configured account after lower-casing both, or the gas price is
  absent, the scan (in both versions) returns \<open>false\<close> with no error, no call to any
  collaborator (so no credit call) and the ledger untouched, whatever the value and the gas
  limit are.
\<close>

theorem irrelevant_transaction_not_credited:
  assumes "validateTx (Obj tx) = Inr ()"
    and "tx_to tx = None \<or> tx_to tx = Some [] \<or>
         (\<exists>a. tx_to tx = Some a \<and> toLowerCase a \<noteq> toLowerCase (evmAccount ctx)) \<or>
         tx_gasPrice tx = None"
  shows "scanTxid ctx c (Obj tx) l = (Inr False, [], l) \<and>
         scanTxid_v2 ctx c (Obj tx) l = (Inr False, [], l)"
proof -
  from assms(2) have "\<not> isGasPriceAndToAddressCorrect ctx tx"
    by (auto simp add: isGasPriceAndToAddressCorrect_def split: option.splits)
  with assms(1) show ?thesis
    by (simp add: scanTxid_v2_eq scanTxid_irrelevant)
qed

theorem irrelevant_transaction_not_credited_witness:
  "validateTx (Obj (tx0\<lparr>tx_to := Some ''0xother''\<rparr>)) = Inr () \<and>
   toLowerCase ''0xother'' \<noteq> toLowerCase (evmAccount ctx0) \<and>
   scanTxid ctx0 deps0 (Obj (tx0\<lparr>tx_to := Some ''0xother''\<rparr>)) ledger0 =
     (Inr False, [], ledger0) \<and>
   scanTxid_v2 ctx0 deps0 (Obj (tx0\<lparr>tx_to := Some ''0xother''\<rparr>)) ledger0 =
     (Inr False, [], ledger0)"
proof -
  have valid: "validateTx (Obj (tx0\<lparr>tx_to := Some ''0xother''\<rparr>)) = Inr ()"
    by (simp add: validateTx_def tx0_def js_eval)
  have other: "toLowerCase ''0xother'' \<noteq> toLowerCase (evmAccount ctx0)"
    by (simp add: toLowerCase_def lower_table_def the_default_def ctx0_def)
  then have elsewhere:
    "tx_to (tx0\<lparr>tx_to := Some ''0xother''\<rparr>) = None \<or>
     tx_to (tx0\<lparr>tx_to := Some ''0xother''\<rparr>) = Some [] \<or>
     (\<exists>a. tx_to (tx0\<lparr>tx_to := Some ''0xother''\<rparr>) = Some a \<and>
        toLowerCase a \<noteq> toLowerCase (evmAccount ctx0)) \<or>
     tx_gasPrice (tx0\<lparr>tx_to := Some ''0xother''\<rparr>) = None"
    by simp
  from irrelevant_transaction_not_credited [OF valid elsewhere, of deps0 ledger0] valid other
  show ?thesis
    by simp
qed

subsection \<open>The success line\<close>

text \<open>
  Claim C9, as amended. Whenever the scan of a transaction calls the ledger and the ledger
  answers \<open>true\<close>, the scan returns \<open>true\<close> and its trace ends with the one log line it
  writes, which records the transaction id, the transferred value in ether (the value
  alone, without the fee that the credited amount includes), the asset and the order id.
  The refactored version does the same.
\<close>

theorem success_line_on_credit:
  assumes "scanTxid ctx c t l = (r, tr, l')"
    and "MaybeInternalCreateDeposit a \<in> set tr"
    and "fst (maybeInternalCreateDeposit c a l) = Inr True"
  shows "r = Inr True \<and> scanTxid_v2 ctx c t l = (r, tr, l') \<and>
         (\<exists>tx ord. t = Obj tx \<and> a = credit_request ctx c tx ord \<and>
            filter is_log tr = [success_line ctx tx ord] \<and>
            tr = [GetOne (method_id (nativeMethod ctx)) (tx_from tx),
                  MaybeInternalCreateDeposit a, success_line ctx tx ord])"
proof -
  from assms(1,2) obtain tx where t: "t = Obj tx"
    by (cases t) (auto simp add: scanTxid_def typeof_tx_def throw_def split: if_splits)
  have "\<not> list_all (\<lambda>ev. \<not> is_credit_call ev) tr"
    using assms(2) by (force simp add: list_all_iff is_credit_call_def)
  with scanTxid_run [OF assms(1) [unfolded t]]
  obtain ord where led: "maybeInternalCreateDeposit c (credit_request ctx c tx ord) l = (r, l')"
    and tr: "tr = [GetOne (method_id (nativeMethod ctx)) (tx_from tx),
                  MaybeInternalCreateDeposit (credit_request ctx c tx ord)] @
                 (if r = Inr True then [success_line ctx tx ord] else [])"
    by blast
  from tr assms(2) have a: "a = credit_request ctx c tx ord"
    by (auto simp add: success_line_def split: if_splits)
  from led assms(3) [unfolded a] have r: "r = Inr True"
    by simp
  with a t tr assms(1) show ?thesis
    by (auto simp add: scanTxid_v2_eq is_log_def success_line_def)
qed

theorem success_line_on_credit_witness:
  "scanTxid ctx0 deps0 (Obj tx0) ledger0 =
     (Inr True,
      [GetOne ''ethereum'' (JString ''0xsender''),
       MaybeInternalCreateDeposit
         \<lparr>orderId = ''o1'', txid = JString ''0xabc'', amount = ''5.000021'',
          uniqueId = ''ethereum/0xabc''\<rparr>,
       LogInfo ''Stored deposit. 0xabc. 5.0 ETH for order o1'' []],
      \<lparr>credited = [''ethereum/0xabc''], closed = []\<rparr>) \<and>
   fst (maybeInternalCreateDeposit deps0
     \<lparr>orderId = ''o1'', txid = JString ''0xabc'', amount = ''5.000021'',
      uniqueId = ''ethereum/0xabc''\<rparr> ledger0) = Inr True \<and>
   scanTxid_v2 ctx0 deps0 (Obj tx0) ledger0 = scanTxid ctx0 deps0 (Obj tx0) ledger0"
proof -
  have called: "MaybeInternalCreateDeposit
      \<lparr>orderId = ''o1'', txid = JString ''0xabc'', amount = ''5.000021'',
       uniqueId = ''ethereum/0xabc''\<rparr> \<in>
    set [GetOne ''ethereum'' (JString ''0xsender''),
       MaybeInternalCreateDeposit
         \<lparr>orderId = ''o1'', txid = JString ''0xabc'', amount = ''5.000021'',
          uniqueId = ''ethereum/0xabc''\<rparr>,
       LogInfo ''Stored deposit. 0xabc. 5.0 ETH for order o1'' []]"
    by simp
  have credited: "fst (maybeInternalCreateDeposit deps0
     \<lparr>orderId = ''o1'', txid = JString ''0xabc'', amount = ''5.000021'',
      uniqueId = ''ethereum/0xabc''\<rparr> ledger0) = Inr True"
    by (simp add: ledger0_credit)
  from success_line_on_credit [OF scan_tx0 called credited]
  have "scanTxid_v2 ctx0 deps0 (Obj tx0) ledger0 = scanTxid ctx0 deps0 (Obj tx0) ledger0"
    by (simp add: scan_tx0)
  with credited show ?thesis
    by (simp add: scan_tx0)
qed

text \<open>
  Claim C9 as stated fails where the fee is not zero: the amount credited is 5.000021, the
  amount in the log line is 5.0.
\<close>

theorem success_line_amount_counterexample:
  "scanTxid ctx0 deps0 (Obj tx0) ledger0 =
     (Inr True,
      [GetOne ''ethereum'' (JString ''0xsender''),
       MaybeInternalCreateDeposit
         \<lparr>orderId = ''o1'', txid = JString ''0xabc'', amount = ''5.000021'',
          uniqueId = ''ethereum/0xabc''\<rparr>,
       LogInfo ''Stored deposit. 0xabc. 5.0 ETH for order o1'' []],
      \<lparr>credited = [''ethereum/0xabc''], closed = []\<rparr>) \<and>
   LogInfo ''Stored deposit. 0xabc. 5.0 ETH for order o1'' [] \<noteq>
     LogInfo (stored_deposit (JString ''0xabc'') ''5.000021'' ''ETH'' ''o1'') []"
  by (simp add: scan_tx0) (simp add: stored_deposit_def to_string_def)

subsection \<open>One credit for one hash\<close>

lemma credit_ids_success_line [simp]: "credit_ids [success_line ctx tx ord] = []"
  by (simp add: success_line_def)

lemma uniqueId_credit_request:
  "uniqueId (credit_request ctx c tx ord) =
     getEthereumNativeDepositUniqueId c (nativeMethod ctx) (tx_hash tx)"
  by (simp add: credit_request_def)

lemma ledger_maybeCredit_cases:
  assumes "ledger_maybeCredit a L = (r, L')"
  shows "(r = Inr False \<and> L' = L \<and>
            (uniqueId a \<in> set (credited L) \<or> orderId a \<in> set (closed L))) \<or>
         (r = Inr True \<and> L' = L\<lparr>credited := uniqueId a # credited L\<rparr> \<and>
            uniqueId a \<notin> set (credited L) \<and> orderId a \<notin> set (closed L))"
  using assms by (auto simp add: ledger_maybeCredit_def split: if_splits)

lemma scan_on_ledger:
  assumes led: "maybeInternalCreateDeposit c = ledger_maybeCredit"
    and run: "scanTxid ctx c (Obj tx) L = (r, tr, L')"
  shows "(credit_ids tr = [] \<and> L' = L \<and> r \<noteq> Inr True) \<or>
         (credit_ids tr = [getEthereumNativeDepositUniqueId c (nativeMethod ctx) (tx_hash tx)] \<and>
          r = Inr False \<and> L' = L) \<or>
         (credit_ids tr = [getEthereumNativeDepositUniqueId c (nativeMethod ctx) (tx_hash tx)] \<and>
          r = Inr True \<and>
          getEthereumNativeDepositUniqueId c (nativeMethod ctx) (tx_hash tx) \<notin> set (credited L) \<and>
          L' = L\<lparr>credited :=
            getEthereumNativeDepositUniqueId c (nativeMethod ctx) (tx_hash tx) # credited L\<rparr>)"
proof -
  from scanTxid_run [OF run] show ?thesis
  proof
    assume "credit_ids tr = [] \<and> list_all (\<lambda>ev. \<not> is_credit_call ev) tr \<and> L' = L \<and> r \<noteq> Inr True"
    then show ?thesis by simp
  next
    assume "\<exists>ord. validateTx (Obj tx) = Inr () \<and> isGasPriceAndToAddressCorrect ctx tx \<and>
            getOne c (method_id (nativeMethod ctx)) (tx_from tx) = Inr (Some ord) \<and>
            maybeInternalCreateDeposit c (credit_request ctx c tx ord) L = (r, L') \<and>
            tr = [GetOne (method_id (nativeMethod ctx)) (tx_from tx),
                  MaybeInternalCreateDeposit (credit_request ctx c tx ord)] @
                 (if r = Inr True then [success_line ctx tx ord] else [])"
    then obtain ord where
      call: "ledger_maybeCredit (credit_request ctx c tx ord) L = (r, L')" and
      tr: "tr = [GetOne (method_id (nativeMethod ctx)) (tx_from tx),
                  MaybeInternalCreateDeposit (credit_request ctx c tx ord)] @
                 (if r = Inr True then [success_line ctx tx ord] else [])"
      using led by auto
    from tr have ids:
      "credit_ids tr = [getEthereumNativeDepositUniqueId c (nativeMethod ctx) (tx_hash tx)]"
      by (simp add: uniqueId_credit_request success_line_def)
    from ledger_maybeCredit_cases [OF call] ids show ?thesis
      by (auto simp add: uniqueId_credit_request)
  qed
qed

lemma scan_replay:
  assumes led: "maybeInternalCreateDeposit c = ledger_maybeCredit"
    and run: "scanTxid ctx c (Obj tx) L = (r, tr, L')"
    and called: "credit_ids tr \<noteq> []"
  shows "\<exists>tr'. scanTxid ctx c (Obj tx) L' = (Inr False, tr', L') \<and> credit_ids tr' = credit_ids tr"
proof -
  from scanTxid_run [OF run] called obtain ord where
    valid: "validateTx (Obj tx) = Inr ()" and
    relevant: "isGasPriceAndToAddressCorrect ctx tx" and
    found: "getOne c (method_id (nativeMethod ctx)) (tx_from tx) = Inr (Some ord)" and
    call: "ledger_maybeCredit (credit_request ctx c tx ord) L = (r, L')" and
    tr: "tr = [GetOne (method_id (nativeMethod ctx)) (tx_from tx),
                  MaybeInternalCreateDeposit (credit_request ctx c tx ord)] @
                 (if r = Inr True then [success_line ctx tx ord] else [])"
    using led by auto
  from ledger_maybeCredit_cases [OF call]
  have again: "ledger_maybeCredit (credit_request ctx c tx ord) L' = (Inr False, L')"
    by (auto simp add: ledger_maybeCredit_def)
  show ?thesis
    unfolding scanTxid_relevant [OF valid relevant]
    using found again led tr by (simp add: success_line_def)
qed

text \<open>
  Claim C1, on the ledger of the spec. Take two scans, one after the other, of transactions
  with the same hash under the same native method (the order store and the rest may answer
  differently the second time). Every credit call of both carries the same unique id, the
  one derived from the native method and the hash. If the first scan credited, the second
  does not, leaves the ledger as it is, and its credit call, if it makes one, returns
  \<open>false\<close>. Over both scans at most one credit is added. When the second scan repeats the
  first (same context, collaborators and transaction) and the first reached the ledger, the
  second returns \<open>false\<close>. The refactored version runs the same.
\<close>

theorem same_hash_credits_once:
  assumes led1: "maybeInternalCreateDeposit c1 = ledger_maybeCredit"
    and led2: "maybeInternalCreateDeposit c2 = ledger_maybeCredit"
    and uid: "getEthereumNativeDepositUniqueId c2 = getEthereumNativeDepositUniqueId c1"
    and nm: "nativeMethod ctx2 = nativeMethod ctx1"
    and h: "tx_hash tx2 = tx_hash tx1"
    and run1: "scanTxid ctx1 c1 (Obj tx1) L = (r1, tr1, L1)"
    and run2: "scanTxid ctx2 c2 (Obj tx2) L1 = (r2, tr2, L2)"
  shows "set (credit_ids tr1 @ credit_ids tr2) \<subseteq>
           {getEthereumNativeDepositUniqueId c1 (nativeMethod ctx1) (tx_hash tx1)} \<and>
         (r1 = Inr True \<longrightarrow>
            r2 \<noteq> Inr True \<and> L2 = L1 \<and> (credit_ids tr2 \<noteq> [] \<longrightarrow> r2 = Inr False)) \<and>
         (credited L2 = credited L \<or>
          credited L2 =
            getEthereumNativeDepositUniqueId c1 (nativeMethod ctx1) (tx_hash tx1) # credited L) \<and>
         (ctx2 = ctx1 \<and> c2 = c1 \<and> tx2 = tx1 \<and> credit_ids tr1 \<noteq> [] \<longrightarrow>
            r2 = Inr False \<and> L2 = L1) \<and>
         scanTxid_v2 ctx1 c1 (Obj tx1) L = (r1, tr1, L1) \<and>
         scanTxid_v2 ctx2 c2 (Obj tx2) L1 = (r2, tr2, L2)"
proof -
  note first = scan_on_ledger [OF led1 run1]
  note second = scan_on_ledger [OF led2 run2, unfolded uid nm h]
  have ids: "set (credit_ids tr1 @ credit_ids tr2) \<subseteq>
           {getEthereumNativeDepositUniqueId c1 (nativeMethod ctx1) (tx_hash tx1)}"
    using first second by auto
  have once: "r1 = Inr True \<longrightarrow>
      r2 \<noteq> Inr True \<and> L2 = L1 \<and> (credit_ids tr2 \<noteq> [] \<longrightarrow> r2 = Inr False)"
    using first second by auto
  have state: "credited L2 = credited L \<or>
          credited L2 =
            getEthereumNativeDepositUniqueId c1 (nativeMethod ctx1) (tx_hash tx1) # credited L"
    using first second by auto
  have replay: "ctx2 = ctx1 \<and> c2 = c1 \<and> tx2 = tx1 \<and> credit_ids tr1 \<noteq> [] \<longrightarrow>
            r2 = Inr False \<and> L2 = L1"
  proof
    assume same: "ctx2 = ctx1 \<and> c2 = c1 \<and> tx2 = tx1 \<and> credit_ids tr1 \<noteq> []"
    with scan_replay [OF led1 run1] obtain tr' where
      "scanTxid ctx1 c1 (Obj tx1) L1 = (Inr False, tr', L1)"
      by blast
    with run2 same show "r2 = Inr False \<and> L2 = L1"
      by simp
  qed
  from ids once state replay run1 run2 show ?thesis
    by (simp add: scanTxid_v2_eq)
qed

theorem same_hash_credits_once_witness:
  "maybeInternalCreateDeposit deps0 = ledger_maybeCredit \<and>
   scanTxid ctx0 deps0 (Obj tx0) ledger0 =
     (Inr True,
      [GetOne ''ethereum'' (JString ''0xsender''),
       MaybeInternalCreateDeposit
         \<lparr>orderId = ''o1'', txid = JString ''0xabc'', amount = ''5.000021'',
          uniqueId = ''ethereum/0xabc''\<rparr>,
       LogInfo ''Stored deposit. 0xabc. 5.0 ETH for order o1'' []],
      \<lparr>credited = [''ethereum/0xabc''], closed = []\<rparr>) \<and>
   scanTxid_v2 ctx0 deps0 (Obj tx0) \<lparr>credited = [''ethereum/0xabc''], closed = []\<rparr> =
     (Inr False,
      [GetOne ''ethereum'' (JString ''0xsender''),
       MaybeInternalCreateDeposit
         \<lparr>orderId = ''o1'', txid = JString ''0xabc'', amount = ''5.000021'',
          uniqueId = ''ethereum/0xabc''\<rparr>],
      \<lparr>credited = [''ethereum/0xabc''], closed = []\<rparr>)"
proof -
  have led: "maybeInternalCreateDeposit deps0 = ledger_maybeCredit"
    by (simp add: deps0_def)
  from same_hash_credits_once [OF led led refl refl refl scan_tx0 scan_tx0_again]
  have "scanTxid_v2 ctx0 deps0 (Obj tx0) \<lparr>credited = [''ethereum/0xabc''], closed = []\<rparr> =
     (Inr False,
      [GetOne ''ethereum'' (JString ''0xsender''),
       MaybeInternalCreateDeposit
         \<lparr>orderId = ''o1'', txid = JString ''0xabc'', amount = ''5.000021'',
          uniqueId = ''ethereum/0xabc''\<rparr>],
      \<lparr>credited = [''ethereum/0xabc''], closed = []\<rparr>)"
    by blast
  with led scan_tx0 show ?thesis
    by simp
qed

subsection \<open>The two versions\<close>

lemma scanTxid_v2_ext: "scanTxid_v2 ctx c = scanTxid ctx c"
  by (rule ext)+ (rule scanTxid_v2_eq)

lemma scan_candidate_v2_ext: "scan_candidate_v2 ctx c = scan_candidate ctx c"
  unfolding scan_candidate_v2_def scan_candidate_def scanTxid_v2_ext
  by (rule refl)

lemma getEtherScanBlocknumber_v2_ext:
  "getEtherScanBlocknumber_v2 ctx c = getEtherScanBlocknumber ctx c"
  by (rule ext)+ (simp add: getEtherScanBlocknumber_v2_def getEtherScanBlocknumber_def)

lemma scan_order_v2_eq:
  "discard (scan_order_v2 ctx c oid) l = discard (scan_order ctx c oid) l"
proof (cases "findOneBy c oid")
  case (Inl e)
  then show ?thesis
    by (simp add: discard_def scan_order_v2_def scan_order_def prog_defs)
next
  case (Inr found)
  show ?thesis
  proof (cases found)
    case None
    with Inr show ?thesis
      by (simp add: discard_def scan_order_v2_def scan_order_def
          checkIfOrderExistsAndOrderAddressAssigned_def prog_defs)
  next
    case (Some ord)
    show ?thesis
    proof (cases "depositAddress ord")
      case None
      with Inr Some show ?thesis
        by (simp add: discard_def scan_order_v2_def scan_order_def
            checkIfOrderExistsAndOrderAddressAssigned_def prog_defs)
    next
      case (Some address)
      with Inr \<open>found = Some ord\<close> show ?thesis
        by (simp add: discard_def scan_order_v2_def scan_order_def
            checkIfOrderExistsAndOrderAddressAssigned_def getEtherScanBlocknumber_v2_ext
            scan_candidate_v2_ext getEtherScanTxListForAddressInDesc_def
            getEtherScanTxListForAddress_def prog_defs
            split: sum.splits prod.splits option.splits)
    qed
  qed
qed

lemma scan_order_v2_ext:
  "(\<lambda>oid. and_then (scan_order_v2 ctx c oid) (\<lambda>_. ret ())) =
   (\<lambda>oid. and_then (scan_order ctx c oid) (\<lambda>_. ret ()))"
  using scan_order_v2_eq [of ctx c] by (auto simp add: discard_def fun_eq_iff)

text \<open>
  Claim C7. When the order store has no order for the id, or the order has no deposit
  address, the task logs that and returns normally (\<open>undefined\<close> in the original version,
  \<open>true\<close> in the refactored one); its whole trace is the opening log line, the lookup and
  the error line, so neither the block-time resolver nor the transaction history, the node
  or the ledger is called, and the ledger is untouched.
\<close>

theorem missing_order_or_address_ends_task:
  assumes "findOneBy c oid = Inr None \<or>
           (\<exists>ord. findOneBy c oid = Inr (Some ord) \<and> depositAddress ord = None)"
  shows "scan_order ctx c oid l =
           (Inr JUndefined,
            [LogInfo ''Processing queued task to look at order %s for deposits'' [JString oid],
             FindOneBy oid,
             LogError None
               (if findOneBy c oid = Inr None then ''Order %s not found''
                else ''Order %s has no deposit address'') [JString oid]],
            l) \<and>
         scan_order_v2 ctx c oid l =
           (Inr (JBoolean True),
            [LogInfo ''Processing queued task to look at order %s for deposits'' [JString oid],
             FindOneBy oid,
             LogError None
               (if findOneBy c oid = Inr None then ''Order %s not found''
                else ''Order %s has no deposit address'') [JString oid]],
            l)"
  using assms
  by (auto simp add: scan_order_def scan_order_v2_def
      checkIfOrderExistsAndOrderAddressAssigned_def prog_defs)

theorem missing_order_or_address_ends_task_witness:
  "findOneBy deps0 ''o2'' = Inr None \<and>
   scan_order ctx0 deps0 ''o2'' ledger0 =
     (Inr JUndefined,
      [LogInfo ''Processing queued task to look at order %s for deposits'' [JString ''o2''],
       FindOneBy ''o2'', LogError None ''Order %s not found'' [JString ''o2'']],
      ledger0) \<and>
   scan_order_v2 ctx0 deps0 ''o2'' ledger0 =
     (Inr (JBoolean True),
      [LogInfo ''Processing queued task to look at order %s for deposits'' [JString ''o2''],
       FindOneBy ''o2'', LogError None ''Order %s not found'' [JString ''o2'']],
      ledger0)"
proof -
  have gone: "findOneBy deps0 ''o2'' = Inr None"
    by (simp add: deps0_def)
  then have "findOneBy deps0 ''o2'' = Inr None \<or>
      (\<exists>ord. findOneBy deps0 ''o2'' = Inr (Some ord) \<and> depositAddress ord = None)"
    by simp
  from missing_order_or_address_ends_task [OF this, of ctx0 ledger0] gone show ?thesis
    by simp
qed

subsection \<open>A fault while scanning one candidate\<close>
















subsection \<open>The two versions agree\<close>

text \<open>
  Claim C10. With the same context, collaborators and ledger state, the refactored version
  runs as the original one: \<open>scanTxid\<close> gives the same result, trace and ledger state; the
  task of an order id gives the same trace, the same ledger state and the same failure, if
  any (what the handler returns aside: \<open>true\<close> against \<open>undefined\<close> for a missing order
  or address); and so does the whole worker, whatever \<open>pMap\<close> and the queue are.
\<close>

theorem versions_agree:
  "scanTxid_v2 ctx c t l = scanTxid ctx c t l \<and>
   discard (scan_order_v2 ctx c oid) l = discard (scan_order ctx c oid) l \<and>
   runConfirmedNativeTokenExtraWorker_v2 ctx c l = runConfirmedNativeTokenExtraWorker ctx c l"
proof -
  have "runConfirmedNativeTokenExtraWorker_v2 ctx c = runConfirmedNativeTokenExtraWorker ctx c"
    unfolding runConfirmedNativeTokenExtraWorker_v2_def runConfirmedNativeTokenExtraWorker_def
      runScanByOrderId_v2_def runScanByOrderId_def scan_order_v2_ext
    by (rule refl)
  then show ?thesis
    by (simp add: scanTxid_v2_eq scan_order_v2_eq)
qed

theorem versions_agree_witness:
  "discard (scan_order_v2 ctx0 deps0 ''o1'') ledger0 =
     (Inr (),
      [LogInfo ''Processing queued task to look at order %s for deposits'' [JString ''o1''],
       FindOneBy ''o1'',
       AxiosGet ''https://api.etherscan.io/api?module=block&action=getblocknobytime&timestamp=1700000000000&closest=before&apikey=KEY'',
       AxiosGet ''https://api.etherscan.io/api?module=account&action=txlist&address=0xsender&startblock=18500000&sort=desc&apikey=KEY'',
       LogInfo ''Found %s transactions for order %s'' [JNumber 1, JString ''o1''],
       GetTransaction ''0xabc'', LogInfo ''Scanning tx %s'' [JString ''0xabc''],
       GetOne ''ethereum'' (JString ''0xsender''),
       MaybeInternalCreateDeposit
         \<lparr>orderId = ''o1'', txid = JString ''0xabc'', amount = ''5.000021'',
          uniqueId = ''ethereum/0xabc''\<rparr>,
       LogInfo ''Stored deposit. 0xabc. 5.0 ETH for order o1'' []],
      \<lparr>credited = [''ethereum/0xabc''], closed = []\<rparr>)"
proof -
  from versions_agree [of ctx0 deps0 "Obj tx0" ledger0 "''o1''"]
  have "discard (scan_order_v2 ctx0 deps0 ''o1'') ledger0 =
      discard (scan_order ctx0 deps0 ''o1'') ledger0"
    by blast
  then show ?thesis
    by (simp add: discard_def and_then_def ret_def task_o1)
qed

end
